theory Spec2Isabelle
  imports Complex_Main "HOL-Library.Char_ord" "HOL-Library.List_Lexorder"
begin

text \<open>
  A model of the availability and booking code of the LocalConnect marketplace:
  \<open>src/lib/availability.js\<close> (slot generation, conflict and past-slot filtering,
  availability status, next available slot), the booking and slot functions of
  \<open>src/lib/firestore.js\<close>, and the submit handler of the provider page. The functions
  keep the names of the source. Each one is a HOL function of its arguments and of what
  it reads from its surroundings: the time zone offset, the clock, the store.
\<close>

section \<open>JavaScript primitives used by the availability code\<close>

text \<open>
  The availability library works on time strings such as \<open>''09:30''\<close>. It takes them
  apart with \<open>String.prototype.split\<close> and \<open>parseInt\<close> and builds them with
  \<open>Number.prototype.toString\<close> and \<open>String.prototype.padStart\<close>. These four
  built-ins are modelled here on HOL strings (lists of 8-bit characters); time strings
  are taken to be ASCII.

  Numbers that the code computes from such strings are integers or \<open>NaN\<close>; they are
  modelled as \<open>int option\<close>, \<open>None\<close> standing for \<open>NaN\<close>. The program computes with
  doubles, which are exact on whole numbers of absolute value up to \<open>2^53\<close>: within
  that range the integers of the model are the numbers of the program, beyond it they
  are not (a double near \<open>6 * 10^17\<close> does not change when 60 is added to it). Results
  that depend on termination are therefore stated for bounded times. Signed zeros are
  not modelled.
\<close>

type_synonym jsint = "int option"

text \<open>The white space that \<open>parseInt\<close> skips, as far as it is ASCII.\<close>

definition isWhiteSpace :: "char \<Rightarrow> bool" where
  "isWhiteSpace c = (c \<in> set [CHR 0x09, CHR 0x0A, CHR 0x0B, CHR 0x0C, CHR 0x0D, CHR '' ''])"

definition digitValue :: "char \<Rightarrow> nat option" where
  "digitValue c =
     (let n = (of_char c :: nat) in
      if 48 \<le> n \<and> n \<le> 57 then Some (n - 48)
      else if 97 \<le> n \<and> n \<le> 122 then Some (n - 87)
      else if 65 \<le> n \<and> n \<le> 90 then Some (n - 55)
      else None)"

definition isRadixDigit :: "nat \<Rightarrow> char \<Rightarrow> bool" where
  "isRadixDigit r c = (case digitValue c of None \<Rightarrow> False | Some v \<Rightarrow> v < r)"

definition digitsValue :: "nat \<Rightarrow> string \<Rightarrow> nat" where
  "digitsValue r ds =
     foldl (\<lambda>acc c. case digitValue c of None \<Rightarrow> acc | Some v \<Rightarrow> acc * r + v) 0 ds"

text \<open>
  \<open>parseInt(str)\<close> without a radix: leading white space is skipped, an optional sign is
  read, a \<open>0x\<close> prefix selects radix 16, and the longest prefix of digits is the value.
  Without any digit the result is \<open>NaN\<close>.
\<close>

definition parseInt :: "string \<Rightarrow> jsint" where
  "parseInt str =
     (let s1 = dropWhile isWhiteSpace str;
          neg = (s1 \<noteq> [] \<and> hd s1 = CHR ''-'');
          s2 = (if s1 \<noteq> [] \<and> (hd s1 = CHR ''-'' \<or> hd s1 = CHR ''+'') then tl s1 else s1);
          hex = (length s2 \<ge> 2 \<and> hd s2 = CHR ''0'' \<and> (s2 ! 1 = CHR ''x'' \<or> s2 ! 1 = CHR ''X''));
          r = (if hex then 16 else 10);
          s3 = (if hex then drop 2 s2 else s2);
          z = takeWhile (isRadixDigit r) s3
      in if z = [] then None
         else Some ((if neg then - 1 else 1) * int (digitsValue r z)))"

text \<open>\<open>str.split(sep)\<close> for a one-character separator; the result is never empty.\<close>

fun jsSplit :: "char \<Rightarrow> string \<Rightarrow> string list" where
  "jsSplit sep [] = [] # []"
| "jsSplit sep (c # cs) =
     (if c = sep then [] # jsSplit sep cs
      else (case jsSplit sep cs of [] \<Rightarrow> [c] # [] | p # ps \<Rightarrow> (c # p) # ps))"

text \<open>
  \<open>parseInt(parts[i])\<close>: an index past the end reads \<open>undefined\<close>, which \<open>parseInt\<close>
  turns into \<open>NaN\<close>.
\<close>

definition parseIntAt :: "string list \<Rightarrow> nat \<Rightarrow> jsint" where
  "parseIntAt parts i = (if i < length parts then parseInt (parts ! i) else None)"

definition digitChar :: "nat \<Rightarrow> char" where
  "digitChar d = ''0123456789'' ! d"

function natToString :: "nat \<Rightarrow> string" where
  "natToString n = (if n < 10 then [digitChar n] else natToString (n div 10) @ [digitChar (n mod 10)])"
  by pat_completeness auto
termination
  by (relation "measure id") auto

declare natToString.simps [simp del]

definition toString :: "int \<Rightarrow> string" where
  "toString i = (if i < 0 then CHR ''-'' # natToString (nat (- i)) else natToString (nat i))"

definition padStart :: "nat \<Rightarrow> char \<Rightarrow> string \<Rightarrow> string" where
  "padStart n c s = replicate (n - length s) c @ s"

text \<open>The remainder operator \<open>a % b\<close> on integers takes the sign of the dividend.\<close>

definition jsRem :: "int \<Rightarrow> int \<Rightarrow> int" where
  "jsRem a b = sgn a * (\<bar>a\<bar> mod \<bar>b\<bar>)"

text \<open>Arithmetic and comparison with \<open>NaN\<close>: sums are \<open>NaN\<close>, comparisons are false.\<close>

definition hoursMinutes :: "jsint \<Rightarrow> jsint \<Rightarrow> jsint" where
  "hoursMinutes h m = (case (h, m) of (Some x, Some y) \<Rightarrow> Some (x * 60 + y) | _ \<Rightarrow> None)"

definition jsLess :: "jsint \<Rightarrow> jsint \<Rightarrow> bool" where
  "jsLess a b = (case (a, b) of (Some x, Some y) \<Rightarrow> x < y | _ \<Rightarrow> False)"

definition jsGreaterEq :: "jsint \<Rightarrow> jsint \<Rightarrow> bool" where
  "jsGreaterEq a b = (case (a, b) of (Some x, Some y) \<Rightarrow> x \<ge> y | _ \<Rightarrow> False)"

section \<open>Time strings\<close>

text \<open>
  The source repeats two inline computations. Reading a time string:
  \<^verbatim>\<open>parseInt(t.split(':')[0]) * 60 + parseInt(t.split(':')[1])\<close>
  and writing one:
  \<^verbatim>\<open>hour = Math.floor(time / 60); minute = time % 60;
  `${hour.toString().padStart(2, '0')}:${minute.toString().padStart(2, '0')}`\<close>
  They are named \<open>minutesOf\<close> and \<open>timeString\<close> here.
\<close>

definition minutesOf :: "string \<Rightarrow> jsint" where
  "minutesOf t = hoursMinutes (parseIntAt (jsSplit CHR '':'' t) 0) (parseIntAt (jsSplit CHR '':'' t) 1)"

definition timeString :: "int \<Rightarrow> string" where
  "timeString time =
     (let hour = time div 60; minute = jsRem time 60
      in padStart 2 CHR ''0'' (toString hour) @ '':'' @ padStart 2 CHR ''0'' (toString minute))"

section \<open>Data model\<close>

text \<open>
  A calendar date reaches the code as a string. The code compares such strings and hands
  them to the \<open>Date\<close> constructor, so a string is represented by what the constructor
  makes of it:
  \<^item> \<open>NoDate\<close> is a falsy argument (the empty string, \<open>undefined\<close>);
  \<^item> \<open>IsoDate n\<close> is the canonical \<open>YYYY-MM-DD\<close> string of the calendar day \<open>n\<close>,
    counted from 1970-01-01; this is what \<open>toISOString\<close> and a date input produce;
  \<^item> \<open>OtherDate raw reading\<close> is any other non-empty string \<open>raw\<close>. What the
    constructor does with it is left to the engine, so the value carries the engine's
    answer: \<open>None\<close> for an invalid date, \<open>Some ms\<close> for the instant \<open>ms\<close>
    (milliseconds since the epoch). V8 reads the out-of-calendar string \<open>2024-02-30\<close>
    as midnight UTC of 2024-03-01, which is \<open>OtherDate ''2024-02-30'' (Some 1709251200000)\<close>.
  Two date strings are equal when their representations are.

  The time zone of the running browser is a fixed offset \<open>tz\<close> in minutes east of UTC
  (daylight saving changes are not modelled).
\<close>

datatype datestr = NoDate | IsoDate int | OtherDate string "int option"

datatype error = TypeError

record dayAvailability =
  available :: bool
  startTime :: "string option"
  endTime :: "string option"

record provider =
  provider_id :: string
  availability :: "(nat \<Rightarrow> dayAvailability option) option"

record booking =
  customerId :: string
  providerId :: string
  scheduledDate :: datestr
  scheduledTime :: string
  status :: string

text \<open>
  \<open>new Date(date).getDay()\<close>: a date-only ISO string is midnight UTC, and \<open>getDay\<close> is
  the local day of the week of that instant, Sunday being 0. 1970-01-01 was a Thursday.
  An invalid date gives \<open>NaN\<close>.
\<close>

definition getDay :: "int \<Rightarrow> datestr \<Rightarrow> nat option" where
  "getDay tz date =
     (case date of
        IsoDate n \<Rightarrow> Some (nat (((n * 1440 + tz) div 1440 + 4) mod 7))
      | OtherDate raw (Some ms) \<Rightarrow> Some (nat (((ms + tz * 60000) div 86400000 + 4) mod 7))
      | _ \<Rightarrow> None)"

text \<open>\<open>provider.availability[dayOfWeek]\<close>; the key \<open>NaN\<close> is never present.\<close>

definition dayRule :: "(nat \<Rightarrow> dayAvailability option) \<Rightarrow> nat option \<Rightarrow> dayAvailability option" where
  "dayRule avail dayOfWeek = (case dayOfWeek of None \<Rightarrow> None | Some d \<Rightarrow> avail d)"

definition isActive :: "booking \<Rightarrow> bool" where
  "isActive b = (status b \<in> set [''pending'', ''confirmed''])"

section \<open>src/lib/availability.js\<close>

definition isProviderAvailable ::
  "int \<Rightarrow> provider option \<Rightarrow> datestr \<Rightarrow> string \<Rightarrow> booking list \<Rightarrow> error + bool" where
  "isProviderAvailable tz provider date time existingBookings =
     (case Option.bind provider availability of
        None \<Rightarrow> Inr False
      | Some avail \<Rightarrow>
          if date = NoDate \<or> time = [] then Inr False
          else
            (case dayRule avail (getDay tz date) of
               None \<Rightarrow> Inr False
             | Some dayAvail \<Rightarrow>
                 if \<not> available dayAvail then Inr False
                 else
                   (let requestedTime = minutesOf time in
                    case startTime dayAvail of
                      None \<Rightarrow> Inl TypeError
                    | Some st \<Rightarrow>
                        (case endTime dayAvail of
                           None \<Rightarrow> Inl TypeError
                         | Some en \<Rightarrow>
                             if jsLess requestedTime (minutesOf st)
                                \<or> jsGreaterEq requestedTime (minutesOf en)
                             then Inr False
                             else Inr (find (\<lambda>b. scheduledDate b = date
                                                  \<and> scheduledTime b = time
                                                  \<and> isActive b) existingBookings = None)))))"

text \<open>
  The \<open>while\<close> loop of \<open>getAvailableTimeSlots\<close>. It need not terminate (a duration of 0
  never advances), so it is a partial function: \<open>None\<close> is a run that never leaves the
  loop (on a real engine such a run goes on until memory is exhausted),
  \<open>Some (Inl e)\<close> a thrown exception, \<open>Some (Inr slots)\<close> a returned list.
  The parameter \<open>slotDuration\<close>, which defaults to 60 in the source, is always passed.
\<close>

partial_function (option) slotsLoop ::
  "int \<Rightarrow> provider \<Rightarrow> datestr \<Rightarrow> booking list \<Rightarrow> int \<Rightarrow> int \<Rightarrow> int \<Rightarrow> string list
     \<Rightarrow> (error + string list) option" where
  "slotsLoop tz p date existingBookings slotDuration endT currentTime slots =
     (if currentTime + slotDuration \<le> endT then
        (case isProviderAvailable tz (Some p) date (timeString currentTime) existingBookings of
           Inl e \<Rightarrow> Some (Inl e)
         | Inr ok \<Rightarrow>
             slotsLoop tz p date existingBookings slotDuration endT (currentTime + slotDuration)
               (if ok then slots @ [timeString currentTime] else slots))
      else Some (Inr slots))"

definition getAvailableTimeSlots ::
  "int \<Rightarrow> provider option \<Rightarrow> datestr \<Rightarrow> booking list \<Rightarrow> int \<Rightarrow> (error + string list) option" where
  "getAvailableTimeSlots tz provider date existingBookings slotDuration =
     (case provider of
        None \<Rightarrow> Some (Inr [])
      | Some p \<Rightarrow>
         (case availability p of
            None \<Rightarrow> Some (Inr [])
          | Some avail \<Rightarrow>
              if date = NoDate then Some (Inr [])
              else
                (case dayRule avail (getDay tz date) of
                   None \<Rightarrow> Some (Inr [])
                 | Some dayAvail \<Rightarrow>
                     if \<not> available dayAvail then Some (Inr [])
                     else
                       (case startTime dayAvail of
                          None \<Rightarrow> Some (Inl TypeError)
                        | Some st \<Rightarrow>
                            (case endTime dayAvail of
                               None \<Rightarrow> Some (Inl TypeError)
                             | Some en \<Rightarrow>
                                 (case (minutesOf st, minutesOf en) of
                                    (Some currentTime, Some endT) \<Rightarrow>
                                      slotsLoop tz p date existingBookings slotDuration endT currentTime []
                                  | _ \<Rightarrow> Some (Inr [])))))))"

text \<open>
  The \<open>for\<close> loop of \<open>generateTimeSlots\<close>, with the same reading of \<open>None\<close>.
\<close>

partial_function (option) generateLoop :: "int \<Rightarrow> int \<Rightarrow> int \<Rightarrow> string list \<Rightarrow> string list option" where
  "generateLoop time endm duration slots =
     (if time + duration \<le> endm
      then generateLoop (time + duration) endm duration (slots @ [timeString time])
      else Some slots)"

definition generateTimeSlots :: "string \<Rightarrow> string \<Rightarrow> int \<Rightarrow> string list option" where
  "generateTimeSlots startT endT duration =
     (case (minutesOf startT, minutesOf endT) of
        (Some start, Some endm) \<Rightarrow> generateLoop start endm duration []
      | _ \<Rightarrow> Some [])"

text \<open>
  \<open>getBookedSlotsForDate\<close>; \<open>Array.prototype.sort\<close> without a comparator orders strings
  by their code units, which is the lexicographic order of HOL strings.
\<close>

definition getBookedSlotsForDate :: "datestr \<Rightarrow> booking list \<Rightarrow> string list" where
  "getBookedSlotsForDate date existingBookings =
     sort (map scheduledTime
            (filter (\<lambda>b. scheduledDate b = date \<and> isActive b) existingBookings))"

text \<open>
  A slot count and a percentage are doubles that may be \<open>NaN\<close> or infinite. They are
  modelled with exact rationals. The percentage is only compared with 25 and 50; for
  totals below \<open>2^31\<close> the rounding of the double division cannot move it across
  either bound.
\<close>

datatype number = NaN | PosInfinity | NegInfinity | Finite rat

definition getTotalPossibleSlots :: "dayAvailability \<Rightarrow> int \<Rightarrow> error + number" where
  "getTotalPossibleSlots dayAvail slotDuration =
     (case startTime dayAvail of
        None \<Rightarrow> Inl TypeError
      | Some st \<Rightarrow>
          (case endTime dayAvail of
             None \<Rightarrow> Inl TypeError
           | Some en \<Rightarrow>
               Inr (case (minutesOf st, minutesOf en) of
                      (Some startT, Some endT) \<Rightarrow>
                        if slotDuration = 0
                        then (if endT - startT > 0 then PosInfinity
                              else if endT - startT < 0 then NegInfinity else NaN)
                        else Finite (of_int ((endT - startT) div slotDuration))
                    | _ \<Rightarrow> NaN)))"

definition getDayName :: "int \<Rightarrow> datestr \<Rightarrow> string option" where
  "getDayName tz date =
     (case getDay tz date of
        None \<Rightarrow> None
      | Some d \<Rightarrow>
          Some ([''Sunday'', ''Monday'', ''Tuesday'', ''Wednesday'', ''Thursday'', ''Friday'',
                 ''Saturday''] ! d))"

text \<open>\<open>(count / total) * 100\<close> and the comparison \<open>x < c\<close> on doubles.\<close>

definition percentage :: "nat \<Rightarrow> number \<Rightarrow> number" where
  "percentage slotCount totalSlots =
     (case totalSlots of
        NaN \<Rightarrow> NaN
      | PosInfinity \<Rightarrow> Finite 0
      | NegInfinity \<Rightarrow> Finite 0
      | Finite t \<Rightarrow>
          if t = 0 then (if slotCount = 0 then NaN else PosInfinity)
          else Finite (of_nat slotCount / t * 100))"

definition numLess :: "number \<Rightarrow> rat \<Rightarrow> bool" where
  "numLess x c =
     (case x of NaN \<Rightarrow> False | PosInfinity \<Rightarrow> False | NegInfinity \<Rightarrow> True | Finite q \<Rightarrow> q < c)"

text \<open>A template literal prints a missing field as \<open>undefined\<close>.\<close>

definition showField :: "string option \<Rightarrow> string" where
  "showField f = (case f of None \<Rightarrow> ''undefined'' | Some s \<Rightarrow> s)"

text \<open>
  The object returned by \<open>getAvailabilityStatus\<close>. The fields are those of the source
  with the prefix \<open>r_\<close>; a field that a branch does not set is \<open>None\<close>. The field
  \<open>availabilityPercentage\<close>, \<open>Math.round\<close> of the percentage, is left out: it is a
  rounded double, which exact rationals do not reproduce in every case.
\<close>

record availabilityStatus =
  r_available :: bool
  r_status :: string
  r_message :: string
  r_dayName :: "string option"
  r_availableSlots :: "nat option"
  r_bookedSlots :: "nat option"
  r_totalSlots :: "number option"
  r_workingHours :: "string option"

definition plainStatus :: "bool \<Rightarrow> string \<Rightarrow> string \<Rightarrow> availabilityStatus" where
  "plainStatus a s m =
     \<lparr> r_available = a, r_status = s, r_message = m, r_dayName = None,
       r_availableSlots = None, r_bookedSlots = None, r_totalSlots = None,
       r_workingHours = None \<rparr>"

definition getAvailabilityStatus ::
  "int \<Rightarrow> provider option \<Rightarrow> datestr \<Rightarrow> booking list \<Rightarrow> (error + availabilityStatus) option" where
  "getAvailabilityStatus tz provider date existingBookings =
     (case Option.bind provider availability of
        None \<Rightarrow> Some (Inr (plainStatus False ''unavailable'' ''No availability data''))
      | Some avail \<Rightarrow>
          if date = NoDate
          then Some (Inr (plainStatus False ''unavailable'' ''No availability data''))
          else
            (case dayRule avail (getDay tz date) of
               None \<Rightarrow>
                 Some (Inr ((plainStatus False ''closed'' ''Provider is closed on this day'')
                              \<lparr> r_dayName := getDayName tz date \<rparr>))
             | Some dayAvail \<Rightarrow>
                 if \<not> available dayAvail
                 then Some (Inr ((plainStatus False ''closed'' ''Provider is closed on this day'')
                                   \<lparr> r_dayName := getDayName tz date \<rparr>))
                 else
                   (case getAvailableTimeSlots tz provider date existingBookings 60 of
                      None \<Rightarrow> None
                    | Some (Inl e) \<Rightarrow> Some (Inl e)
                    | Some (Inr availableSlots) \<Rightarrow>
                        (case getTotalPossibleSlots dayAvail 60 of
                           Inl e \<Rightarrow> Some (Inl e)
                         | Inr totalPossibleSlots \<Rightarrow>
                             (let bookedSlots = getBookedSlotsForDate date existingBookings in
                              if length availableSlots = 0
                              then Some (Inr ((plainStatus False ''fully-booked''
                                                 ''Fully booked for this day'')
                                       \<lparr> r_bookedSlots := Some (length bookedSlots),
                                         r_totalSlots := Some totalPossibleSlots \<rparr>))
                              else
                                (let availabilityPercentage =
                                       percentage (length availableSlots) totalPossibleSlots;
                                     shown = toString (int (length availableSlots));
                                     (st, message) =
                                       (if numLess availabilityPercentage 25
                                        then (''limited'',
                                              ''Limited availability - only '' @ shown @ '' slots left'')
                                        else if numLess availabilityPercentage 50
                                        then (''moderate'', shown @ '' slots available'')
                                        else (''available'', shown @ '' slots available''))
                                 in Some (Inr
                                      \<lparr> r_available = True, r_status = st, r_message = message,
                                        r_dayName = None,
                                        r_availableSlots = Some (length availableSlots),
                                        r_bookedSlots = Some (length bookedSlots),
                                        r_totalSlots = Some totalPossibleSlots,
                                        r_workingHours =
                                          Some (showField (startTime dayAvail) @ '' - ''
                                                @ showField (endTime dayAvail)) \<rparr>)))))))"

text \<open>
  The clock. \<open>now\<close> is the value of \<open>new Date()\<close> in milliseconds since the epoch; one
  call of a library function reads a single instant. \<open>toISOString().split('T')[0]\<close> is
  the UTC calendar day of an instant.
\<close>

definition isoDay :: "int \<Rightarrow> datestr" where
  "isoDay ms = IsoDate (ms div 86400000)"

record nextSlot =
  slot_date :: datestr
  slot_time :: string
  slot_dayName :: "string option"

text \<open>
  The loop of \<open>getNextAvailableSlot\<close>; \<open>checkDate\<close> is \<open>today\<close> moved \<open>i\<close> days ahead.
\<close>

function nextSlotLoop ::
  "int \<Rightarrow> int \<Rightarrow> provider option \<Rightarrow> booking list \<Rightarrow> int \<Rightarrow> int \<Rightarrow> (error + nextSlot option) option" where
  "nextSlotLoop tz today provider existingBookings daysToCheck i =
     (if i < daysToCheck then
        (let dateString = isoDay (today + i * 86400000) in
         case getAvailableTimeSlots tz provider dateString existingBookings 60 of
           None \<Rightarrow> None
         | Some (Inl e) \<Rightarrow> Some (Inl e)
         | Some (Inr availableSlots) \<Rightarrow>
             (case availableSlots of
                t # _ \<Rightarrow>
                  Some (Inr (Some \<lparr> slot_date = dateString, slot_time = t,
                                    slot_dayName = getDayName tz dateString \<rparr>))
              | [] \<Rightarrow> nextSlotLoop tz today provider existingBookings daysToCheck (i + 1)))
      else Some (Inr None))"
  by pat_completeness auto
termination
  by (relation "measure (\<lambda>(tz, today, provider, bs, daysToCheck, i). nat (daysToCheck - i))") auto

declare nextSlotLoop.simps [simp del]

definition getNextAvailableSlot ::
  "int \<Rightarrow> int \<Rightarrow> provider option \<Rightarrow> booking list \<Rightarrow> int \<Rightarrow> (error + nextSlot option) option" where
  "getNextAvailableSlot tz now provider existingBookings daysToCheck =
     nextSlotLoop tz now provider existingBookings daysToCheck 0"

text \<open>
  \<open>new Date(`${date}T${time}:00`)\<close> reads a local date and time. The time must have the
  form \<open>HH:mm\<close> of the ECMAScript date-time format, read by \<open>clockMinutes\<close> as the
  minute of the day, and the date must be canonical. What an engine does with any other
  combined string is implementation-defined; it is taken to be an invalid date.
  \<open>filterPastSlots\<close> reaches this function only with the date of today, which is
  canonical.
\<close>

definition clockMinutes :: "string \<Rightarrow> int option" where
  "clockMinutes t =
     (case t of
        [h1, h2, c, m1, m2] \<Rightarrow>
          if c = CHR '':'' \<and> isRadixDigit 10 h1 \<and> isRadixDigit 10 h2
             \<and> isRadixDigit 10 m1 \<and> isRadixDigit 10 m2
          then (let h = digitsValue 10 [h1, h2]; m = digitsValue 10 [m1, m2]
                in if (h \<le> 23 \<and> m \<le> 59) \<or> (h = 24 \<and> m = 0)
                   then Some (int h * 60 + int m) else None)
          else None
      | _ \<Rightarrow> None)"

definition slotDateTime :: "int \<Rightarrow> datestr \<Rightarrow> string \<Rightarrow> int option" where
  "slotDateTime tz date time =
     (case date of
        IsoDate n \<Rightarrow>
          (case clockMinutes time of
             Some m \<Rightarrow> Some ((n * 1440 + m - tz) * 60000)
           | None \<Rightarrow> None)
      | _ \<Rightarrow> None)"

definition isSlotInPast :: "int \<Rightarrow> int \<Rightarrow> datestr \<Rightarrow> string \<Rightarrow> bool" where
  "isSlotInPast tz now date time = jsLess (slotDateTime tz date time) (Some now)"

definition filterPastSlots :: "int \<Rightarrow> int \<Rightarrow> datestr \<Rightarrow> string list \<Rightarrow> string list" where
  "filterPastSlots tz now date timeSlots =
     (let today = isoDay now in
      if date \<noteq> today then timeSlots
      else filter (\<lambda>time. \<not> isSlotInPast tz now date time) timeSlots)"

definition hasAvailabilityOnDate ::
  "int \<Rightarrow> int \<Rightarrow> provider option \<Rightarrow> datestr \<Rightarrow> booking list \<Rightarrow> (error + bool) option" where
  "hasAvailabilityOnDate tz now provider date existingBookings =
     (case getAvailableTimeSlots tz provider date existingBookings 60 of
        None \<Rightarrow> None
      | Some (Inl e) \<Rightarrow> Some (Inl e)
      | Some (Inr availableSlots) \<Rightarrow>
          Some (Inr (length (filterPastSlots tz now date availableSlots) > 0)))"

text \<open>
  \<open>getNextAvailableDate\<close> starts from local midnight (\<open>today.setHours(0, 0, 0, 0)\<close>).
\<close>

definition localMidnight :: "int \<Rightarrow> int \<Rightarrow> int" where
  "localMidnight tz now = ((now + tz * 60000) div 86400000) * 86400000 - tz * 60000"

function nextDateLoop ::
  "int \<Rightarrow> int \<Rightarrow> int \<Rightarrow> provider option \<Rightarrow> booking list \<Rightarrow> int \<Rightarrow> int \<Rightarrow> (error + datestr option) option" where
  "nextDateLoop tz now today provider existingBookings daysToCheck i =
     (if i < daysToCheck then
        (let dateString = isoDay (today + i * 86400000) in
         case hasAvailabilityOnDate tz now provider dateString existingBookings of
           None \<Rightarrow> None
         | Some (Inl e) \<Rightarrow> Some (Inl e)
         | Some (Inr has) \<Rightarrow>
             if has then Some (Inr (Some dateString))
             else nextDateLoop tz now today provider existingBookings daysToCheck (i + 1))
      else Some (Inr None))"
  by pat_completeness auto
termination
  by (relation "measure (\<lambda>(tz, now, today, provider, bs, daysToCheck, i). nat (daysToCheck - i))") auto

declare nextDateLoop.simps [simp del]

definition getNextAvailableDate ::
  "int \<Rightarrow> int \<Rightarrow> provider option \<Rightarrow> booking list \<Rightarrow> int \<Rightarrow> (error + datestr option) option" where
  "getNextAvailableDate tz now provider existingBookings daysToCheck =
     nextDateLoop tz now (localMidnight tz now) provider existingBookings daysToCheck 0"

section \<open>src/lib/firestore.js\<close>

text \<open>
  The store holds the documents of the \<open>bookings\<close> collection in insertion order; the
  identifier that \<open>addDoc\<close> returns is the position of the new document. \<open>online\<close>
  tells whether the store accepts a request; when it does not, \<open>addDoc\<close> throws.
  The server time stamps of a document are left out.
\<close>

record firestore =
  bookings :: "booking list"
  online :: bool

definition addDoc :: "firestore \<Rightarrow> booking \<Rightarrow> string + (nat \<times> firestore)" where
  "addDoc db d =
     (if online db then Inr (length (bookings db), db \<lparr> bookings := bookings db @ [d] \<rparr>)
      else Inl ''unavailable'')"

text \<open>The two result objects \<open>{success: true, id}\<close> and \<open>{success: false, error}\<close>.\<close>

datatype createResult = Success nat | Failure string

definition createBooking :: "firestore \<Rightarrow> booking \<Rightarrow> createResult \<times> firestore" where
  "createBooking db bookingData =
     (case addDoc db (bookingData \<lparr> status := ''pending'' \<rparr>) of
        Inr (docId, db') \<Rightarrow> (Success docId, db')
      | Inl msg \<Rightarrow> (Failure msg, db))"

text \<open>
  The private helper \<open>generateTimeSlots\<close> of this file, named \<open>fs_generateTimeSlots\<close>
  to keep it apart from the exported function of \<open>availability.js\<close>. It walks a \<open>Date\<close>
  on 2000-01-01; \<open>current\<close> is that date's distance from local midnight in minutes and
  \<open>toTimeString().slice(0, 5)\<close> is its time of day. The two bounds are read by the
  \<open>Date\<close> constructor from \<open>`2000-01-01 ${time}`\<close>, a string outside the ECMAScript
  format, which goes to the engine's own parser. \<open>legacyClockMinutes\<close> models that
  parser on the time strings \<open>H:mm\<close> and \<open>HH:mm\<close>, which V8 reads as a local time of
  day; other strings are taken to be invalid.
\<close>

definition legacyClockMinutes :: "string \<Rightarrow> int option" where
  "legacyClockMinutes t =
     (case t of
        [h, c, m1, m2] \<Rightarrow> clockMinutes [CHR ''0'', h, c, m1, m2]
      | _ \<Rightarrow> clockMinutes t)"

definition timeOfDay :: "int \<Rightarrow> string" where
  "timeOfDay current =
     padStart 2 CHR ''0'' (toString ((current div 60) mod 24)) @ '':''
       @ padStart 2 CHR ''0'' (toString (current mod 60))"

partial_function (option) fsLoop :: "int \<Rightarrow> int \<Rightarrow> int \<Rightarrow> string list \<Rightarrow> string list option" where
  "fsLoop current endm intervalMinutes slots =
     (if current < endm
      then fsLoop (current + intervalMinutes) endm intervalMinutes (slots @ [timeOfDay current])
      else Some slots)"

definition fs_generateTimeSlots :: "string \<Rightarrow> string \<Rightarrow> int \<Rightarrow> string list option" where
  "fs_generateTimeSlots startT endT intervalMinutes =
     (case (legacyClockMinutes startT, legacyClockMinutes endT) of
        (Some start, Some endm) \<Rightarrow> fsLoop start endm intervalMinutes []
      | _ \<Rightarrow> Some [])"

section \<open>src/app/providers/[id]/page.js\<close>

text \<open>
  \<open>handleBookingSubmit\<close> with the page state it reads: the signed-in user's id, the
  user's role, the provider shown and the form. Its effects are a navigation or an alert,
  and the write to the store.
\<close>

record bookingForm =
  form_scheduledDate :: datestr
  form_scheduledTime :: string

datatype submitEffect = RedirectToLogin | AlertOnlyCustomers | AlertRequestSent | AlertError

definition handleBookingSubmit ::
  "firestore \<Rightarrow> string option \<Rightarrow> string option \<Rightarrow> provider \<Rightarrow> bookingForm
     \<Rightarrow> submitEffect \<times> firestore" where
  "handleBookingSubmit db user userRole p bookingData =
     (case user of
        None \<Rightarrow> (RedirectToLogin, db)
      | Some uid \<Rightarrow>
          if userRole \<noteq> Some ''customer'' then (AlertOnlyCustomers, db)
          else
            (case addDoc db \<lparr> customerId = uid, providerId = provider_id p,
                               scheduledDate = form_scheduledDate bookingData,
                               scheduledTime = form_scheduledTime bookingData,
                               status = ''pending'' \<rparr> of
               Inr (docId, db') \<Rightarrow> (AlertRequestSent, db')
             | Inl msg \<Rightarrow> (AlertError, db)))"

section \<open>Vocabulary of the specification\<close>

text \<open>
  The bookings that occupy the slot \<open>(providerId, date, time)\<close>: those with that key
  whose status is \<open>pending\<close> or \<open>confirmed\<close>.
\<close>

definition occupying :: "string \<Rightarrow> datestr \<Rightarrow> string \<Rightarrow> booking list \<Rightarrow> booking list" where
  "occupying pid date time bs =
     filter (\<lambda>b. providerId b = pid \<and> scheduledDate b = date \<and> scheduledTime b = time
                  \<and> isActive b) bs"

text \<open>
  The start minutes \<open>start, start + d, start + 2 d, ...\<close> of the slots of length \<open>d\<close>
  that fit before \<open>endm\<close>.
\<close>

definition slotStarts :: "int \<Rightarrow> int \<Rightarrow> int \<Rightarrow> int list" where
  "slotStarts start endm d = map (\<lambda>k. start + int k * d) [0 ..< nat ((endm - start) div d)]"

text \<open>
  The weekly schedule with which the profile page (\<open>src/app/provider/profile/page.js\<close>)
  starts a new provider: closed on Sunday and Saturday, 09:00 to 17:00 on the other days.
\<close>

definition defaultAvailability :: "nat \<Rightarrow> dayAvailability option" where
  "defaultAvailability d =
     (if d = 0 \<or> d = 6
      then Some \<lparr> available = False, startTime = Some ''09:00'', endTime = Some ''17:00'' \<rparr>
      else if d < 7
      then Some \<lparr> available = True, startTime = Some ''09:00'', endTime = Some ''17:00'' \<rparr>
      else None)"

definition defaultProvider :: provider where
  "defaultProvider = \<lparr> provider_id = ''p1'', availability = Some defaultAvailability \<rparr>"

text \<open>
  Sample data: an empty store, and requests of two customers, and an earlier confirmed
  booking of a third, for the same provider, day 20003 (Monday 2024-10-07) and time 10:00.
\<close>

definition emptyStore :: firestore where
  "emptyStore = \<lparr> bookings = [], online = True \<rparr>"

definition requestOf :: "string \<Rightarrow> booking" where
  "requestOf customer =
     \<lparr> customerId = customer, providerId = ''p1'', scheduledDate = IsoDate 20003,
       scheduledTime = ''10:00'', status = ''pending'' \<rparr>"

definition confirmedBooking :: booking where
  "confirmedBooking = (requestOf ''carol'') \<lparr> status := ''confirmed'' \<rparr>"

definition mondayForm :: bookingForm where
  "mondayForm = \<lparr> form_scheduledDate = IsoDate 20003, form_scheduledTime = ''10:00'' \<rparr>"

text \<open>
  The day of the week of the calendar day \<open>n\<close> (days since Thursday 1970-01-01), Sunday
  being 0: the key under which a weekly schedule holds the rule of that day.
\<close>

definition weekdayOf :: "int \<Rightarrow> nat" where
  "weekdayOf n = nat ((n + 4) mod 7)"

text \<open>A string of decimal digits.\<close>

definition isDecimal :: "string \<Rightarrow> bool" where
  "isDecimal s = (s \<noteq> [] \<and> (\<forall>c\<in>set s. \<exists>d<10. c = digitChar d))"

section \<open>Reading back a written time string\<close>

lemma lt10_cases: "(d::nat) < 10 \<Longrightarrow> d = 0 \<or> d = 1 \<or> d = 2 \<or> d = 3 \<or> d = 4 \<or> d = 5 \<or> d = 6 \<or> d = 7 \<or> d = 8 \<or> d = 9"
  by arith

lemma digitChar_value: "d < 10 \<Longrightarrow> digitValue (digitChar d) = Some d"
  using lt10_cases [of d] by (auto simp: digitChar_def digitValue_def)

lemma digitChar_plain:
  "d < 10 \<Longrightarrow> \<not> isWhiteSpace (digitChar d) \<and> digitChar d \<noteq> CHR ''-'' \<and> digitChar d \<noteq> CHR ''+''
     \<and> digitChar d \<noteq> CHR ''x'' \<and> digitChar d \<noteq> CHR ''X'' \<and> digitChar d \<noteq> CHR '':''"
  using lt10_cases [of d] by (auto simp: digitChar_def isWhiteSpace_def)

lemma isDecimal_natToString: "isDecimal (natToString n)"
proof (induction n rule: natToString.induct)
  case (1 n)
  show ?case
  proof (cases "n < 10")
    case True
    then show ?thesis by (subst natToString.simps) (auto simp: isDecimal_def)
  next
    case False
    then have ih: "isDecimal (natToString (n div 10))" using 1 by simp
    have eq: "natToString n = natToString (n div 10) @ [digitChar (n mod 10)]"
      using False by (subst natToString.simps) simp
    have "n mod 10 < 10" by simp
    then have "\<exists>d<10. digitChar (n mod 10) = digitChar d" by blast
    then show ?thesis using ih unfolding eq isDecimal_def by auto
  qed
qed

lemma digitsValue_snoc:
  "digitsValue r (ds @ [c]) = (case digitValue c of None \<Rightarrow> digitsValue r ds | Some v \<Rightarrow> digitsValue r ds * r + v)"
  by (simp add: digitsValue_def split: option.split)

lemma digitsValue_natToString: "digitsValue 10 (natToString n) = n"
proof (induction n rule: natToString.induct)
  case (1 n)
  show ?case
  proof (cases "n < 10")
    case True
    then show ?thesis
      by (subst natToString.simps) (simp add: digitsValue_def digitChar_value)
  next
    case False
    then have "digitsValue 10 (natToString (n div 10)) = n div 10" using 1 by simp
    then show ?thesis using False
      by (subst natToString.simps) (simp add: digitsValue_snoc digitChar_value)
  qed
qed

lemma digitsValue_zeros: "digitsValue r (replicate k (CHR ''0'') @ s) = digitsValue r s"
proof -
  have z: "digitValue (CHR ''0'') = Some 0" by (simp add: digitValue_def)
  have "foldl (\<lambda>acc c. case digitValue c of None \<Rightarrow> acc | Some v \<Rightarrow> acc * r + v) 0 (replicate k (CHR ''0'')) = 0"
    by (induction k) (simp_all add: z)
  then show ?thesis by (simp add: digitsValue_def)
qed

lemma isDecimal_padStart: "isDecimal s \<Longrightarrow> isDecimal (padStart n (CHR ''0'') s)"
proof -
  have "CHR ''0'' = digitChar 0" by (simp add: digitChar_def)
  then have z: "\<exists>d<10. CHR ''0'' = digitChar d" by (intro exI [of _ 0]) simp
  show "isDecimal s \<Longrightarrow> isDecimal (padStart n (CHR ''0'') s)"
    unfolding isDecimal_def padStart_def using z by auto
qed

lemma isRadixDigit_decimal: "d < 10 \<Longrightarrow> isRadixDigit 10 (digitChar d)"
  by (simp add: isRadixDigit_def digitChar_value)

lemma parseInt_decimal:
  assumes "isDecimal s"
  shows "parseInt s = Some (int (digitsValue 10 s))"
proof -
  from assms obtain c cs where s: "s = c # cs" by (cases s) (auto simp: isDecimal_def)
  from assms s obtain d where d: "d < 10" "c = digitChar d" by (auto simp: isDecimal_def)
  have all: "\<forall>x\<in>set s. isRadixDigit 10 x"
    using assms by (auto simp: isDecimal_def isRadixDigit_decimal)
  have tw: "takeWhile (isRadixDigit 10) s = s"
    using all by (simp add: takeWhile_eq_all_conv)
  have nw: "dropWhile isWhiteSpace s = s"
    using s d digitChar_plain [of d] by simp
  have nosign: "hd s \<noteq> CHR ''-''" "hd s \<noteq> CHR ''+''"
    using s d digitChar_plain [of d] by simp_all
  have nohex: "\<not> (length s \<ge> 2 \<and> hd s = CHR ''0'' \<and> (s ! 1 = CHR ''x'' \<or> s ! 1 = CHR ''X''))"
  proof
    assume h: "length s \<ge> 2 \<and> hd s = CHR ''0'' \<and> (s ! 1 = CHR ''x'' \<or> s ! 1 = CHR ''X'')"
    then have "s ! 1 \<in> set s" by (intro nth_mem) simp
    then obtain e where "e < 10" "s ! 1 = digitChar e" using assms by (auto simp: isDecimal_def)
    then show False using h digitChar_plain [of e] by auto
  qed
  have ne: "s \<noteq> []" using s by simp
  have s2: "(if s \<noteq> [] \<and> (hd s = CHR ''-'' \<or> hd s = CHR ''+'') then tl s else s) = s"
    using nosign by simp
  show ?thesis
    unfolding parseInt_def Let_def nw s2 if_not_P [OF nohex] tw
    using ne nosign by simp
qed

lemma jsSplit_nosep: "sep \<notin> set a \<Longrightarrow> jsSplit sep a = [a]"
  by (induction a) auto

lemma jsSplit_two: "sep \<notin> set a \<Longrightarrow> sep \<notin> set b \<Longrightarrow> jsSplit sep (a @ sep # b) = [a, b]"
  by (induction a) (auto simp: jsSplit_nosep)

lemma isDecimal_nocolon: "isDecimal s \<Longrightarrow> CHR '':'' \<notin> set s"
proof
  assume "isDecimal s" and "CHR '':'' \<in> set s"
  then obtain d where "d < 10" "CHR '':'' = digitChar d" by (auto simp: isDecimal_def)
  then show False using digitChar_plain [of d] by simp
qed

lemma parse_padded: "parseInt (padStart 2 (CHR ''0'') (natToString n)) = Some (int n)"
proof -
  have "isDecimal (padStart 2 (CHR ''0'') (natToString n))"
    by (intro isDecimal_padStart isDecimal_natToString)
  then have "parseInt (padStart 2 (CHR ''0'') (natToString n))
      = Some (int (digitsValue 10 (padStart 2 (CHR ''0'') (natToString n))))"
    by (rule parseInt_decimal)
  then show ?thesis by (simp add: padStart_def digitsValue_zeros digitsValue_natToString)
qed

lemma minutesOf_timeString: 
  assumes "0 \<le> t" shows "minutesOf (timeString t) = Some t"
proof -
  let ?h = "padStart 2 (CHR ''0'') (natToString (nat (t div 60)))"
  let ?m = "padStart 2 (CHR ''0'') (natToString (nat (t mod 60)))"
  have rem: "jsRem t 60 = t mod 60" using assms by (simp add: jsRem_def sgn_if)
  have nn: "\<not> t div 60 < 0" "\<not> t mod 60 < 0"
    using assms by (simp_all add: pos_imp_zdiv_neg_iff)
  have ts: "timeString t = ?h @ CHR '':'' # ?m"
    using nn by (simp add: timeString_def Let_def rem toString_def)
  have dh: "isDecimal ?h" and dm: "isDecimal ?m"
    by (intro isDecimal_padStart isDecimal_natToString)+
  have sp: "jsSplit CHR '':'' (timeString t) = [?h, ?m]"
    unfolding ts using dh dm by (intro jsSplit_two isDecimal_nocolon)
  have "int (nat (t div 60)) * 60 + int (nat (t mod 60)) = t"
    using assms by (simp add: pos_imp_zdiv_nonneg_iff)
  then show ?thesis
    by (simp add: minutesOf_def sp parseIntAt_def parse_padded hoursMinutes_def)
qed

section \<open>Closed forms of the slot iterations\<close>

lemma slotStarts_rec:
  assumes "0 < d"
  shows "slotStarts t e d = (if t + d \<le> e then t # slotStarts (t + d) e d else [])"
proof (cases "t + d \<le> e")
  case False
  then have "e - t < d" by simp
  then have "(e - t) div d \<le> 0"
    using assms div_neg_pos_less0 [of "e - t" d] div_pos_pos_trivial [of "e - t" d]
    by (cases "e - t < 0") auto
  then show ?thesis using False by (simp add: slotStarts_def)
next
  case True
  have "(e - t) div d = (e - (t + d)) div d + 1"
  proof -
    have "e - t = (e - (t + d)) + d" by simp
    then show ?thesis using assms by (metis div_add_self2 less_irrefl)
  qed
  moreover have "0 \<le> (e - (t + d)) div d" using True assms by (simp add: pos_imp_zdiv_nonneg_iff)
  ultimately have n: "nat ((e - t) div d) = Suc (nat ((e - (t + d)) div d))" by simp
  show ?thesis using True
    unfolding slotStarts_def n
    by (simp add: upt_conv_Cons map_Suc_upt [symmetric] algebra_simps del: upt_Suc)
qed


lemma generateLoop_closed:
  assumes "0 < d"
  shows "generateLoop t e d acc = Some (acc @ map timeString (slotStarts t e d))"
proof (induction "slotStarts t e d" arbitrary: t acc)
  case Nil
  then have "\<not> t + d \<le> e" using slotStarts_rec [OF assms, of t e] by (auto split: if_splits)
  then show ?case using Nil [symmetric] by (subst generateLoop.simps) simp
next
  case (Cons x xs)
  then have le: "t + d \<le> e" using slotStarts_rec [OF assms, of t e] by (auto split: if_splits)
  then have eq: "slotStarts t e d = t # slotStarts (t + d) e d"
    using slotStarts_rec [OF assms, of t e] by simp
  then have "xs = slotStarts (t + d) e d" using Cons.hyps(2) by simp
  then have "generateLoop (t + d) e d (acc @ [timeString t])
      = Some ((acc @ [timeString t]) @ map timeString (slotStarts (t + d) e d))"
    by (rule Cons.hyps(1))
  then show ?case using le eq by (subst generateLoop.simps) simp
qed



lemma isProviderAvailable_open:
  assumes "availability p = Some avail" "date \<noteq> NoDate"
    and "dayRule avail (getDay tz date) = Some da" "available da"
    and "startTime da = Some st" "endTime da = Some en"
  shows "isProviderAvailable tz (Some p) date t bs =
           Inr (t \<noteq> [] \<and> \<not> jsLess (minutesOf t) (minutesOf st)
                \<and> \<not> jsGreaterEq (minutesOf t) (minutesOf en)
                \<and> find (\<lambda>b. scheduledDate b = date \<and> scheduledTime b = t \<and> isActive b) bs = None)"
  using assms by (simp add: isProviderAvailable_def Let_def)

lemma slotsLoop_closed:
  assumes "0 < d" and ok: "\<And>t. isProviderAvailable tz (Some p) date t bs = Inr (ok t)"
  shows "slotsLoop tz p date bs d e c acc
           = Some (Inr (acc @ filter ok (map timeString (slotStarts c e d))))"
proof (induction "slotStarts c e d" arbitrary: c acc)
  case Nil
  then have "\<not> c + d \<le> e" using slotStarts_rec [OF assms(1), of c e] by (auto split: if_splits)
  then show ?case using Nil [symmetric] by (subst slotsLoop.simps) simp
next
  case (Cons x xs)
  then have le: "c + d \<le> e" using slotStarts_rec [OF assms(1), of c e] by (auto split: if_splits)
  then have eq: "slotStarts c e d = c # slotStarts (c + d) e d"
    using slotStarts_rec [OF assms(1), of c e] by simp
  then have xs: "xs = slotStarts (c + d) e d" using Cons.hyps(2) by simp
  have "slotsLoop tz p date bs d e (c + d) (if ok (timeString c) then acc @ [timeString c] else acc)
      = Some (Inr ((if ok (timeString c) then acc @ [timeString c] else acc)
                     @ filter ok (map timeString (slotStarts (c + d) e d))))"
    using xs by (rule Cons.hyps(1))
  then show ?case using le eq by (subst slotsLoop.simps) (simp add: ok)
qed

lemma slotsLoop_stuck:
  assumes run: "slotsLoop tz p date bs d e c acc = Some y"
    and ok: "\<forall>t. \<exists>b. isProviderAvailable tz (Some p) date t bs = Inr b"
  shows "\<not> (d \<le> 0 \<and> c + d \<le> e)"
proof -
  have "(\<forall>t. \<exists>b. isProviderAvailable tz (Some p) date t bs = Inr b) \<longrightarrow> \<not> (d \<le> 0 \<and> c + d \<le> e)"
  proof (rule slotsLoop.raw_induct
           [where P = "\<lambda>tz p date bs d e c acc y.
                         (\<forall>t. \<exists>b. isProviderAvailable tz (Some p) date t bs = Inr b)
                           \<longrightarrow> \<not> (d \<le> 0 \<and> c + d \<le> e)", OF _ run])
    fix f :: "int \<Rightarrow> provider \<Rightarrow> datestr \<Rightarrow> booking list \<Rightarrow> int \<Rightarrow> int \<Rightarrow> int \<Rightarrow> string list
                \<Rightarrow> (error + string list) option"
    fix tz d e c :: int and p :: provider and date :: datestr and bs :: "booking list"
      and acc :: "string list" and y :: "error + string list"
    assume ih: "\<And>tz p date bs d e c acc y. f tz p date bs d e c acc = Some y \<Longrightarrow>
                  (\<forall>t. \<exists>b. isProviderAvailable tz (Some p) date t bs = Inr b)
                    \<longrightarrow> \<not> (d \<le> 0 \<and> c + d \<le> e)"
      and step: "(if c + d \<le> e then
                    (case isProviderAvailable tz (Some p) date (timeString c) bs of
                       Inl e \<Rightarrow> Some (Inl e)
                     | Inr ok \<Rightarrow> f tz p date bs d e (c + d)
                                  (if ok then acc @ [timeString c] else acc))
                  else Some (Inr acc)) = Some y"
    show "(\<forall>t. \<exists>b. isProviderAvailable tz (Some p) date t bs = Inr b)
            \<longrightarrow> \<not> (d \<le> 0 \<and> c + d \<le> e)"
    proof (intro impI notI)
      assume all: "\<forall>t. \<exists>b. isProviderAvailable tz (Some p) date t bs = Inr b"
        and a: "d \<le> 0 \<and> c + d \<le> e"
      obtain b where b: "isProviderAvailable tz (Some p) date (timeString c) bs = Inr b"
        using all by blast
      then have "f tz p date bs d e (c + d) (if b then acc @ [timeString c] else acc) = Some y"
        using step a by simp
      then have "\<not> (d \<le> 0 \<and> c + d + d \<le> e)" using ih all by blast
      then show False using a by simp
    qed
  qed
  then show ?thesis using ok by blast
qed

lemma slotsLoop_total:
  assumes "0 < d"
  shows "\<exists>r. slotsLoop tz p date bs d e c acc = Some r"
proof (induction "slotStarts c e d" arbitrary: c acc)
  case Nil
  then have "\<not> c + d \<le> e" using slotStarts_rec [OF assms(1), of c e] by (auto split: if_splits)
  then show ?case by (subst slotsLoop.simps) simp
next
  case (Cons x xs)
  then have le: "c + d \<le> e" using slotStarts_rec [OF assms(1), of c e] by (auto split: if_splits)
  then have eq: "slotStarts c e d = c # slotStarts (c + d) e d"
    using slotStarts_rec [OF assms(1), of c e] by simp
  then have xs: "xs = slotStarts (c + d) e d" using Cons.hyps(2) by simp
  show ?case
  proof (cases "isProviderAvailable tz (Some p) date (timeString c) bs")
    case (Inl err)
    then show ?thesis using le by (subst slotsLoop.simps) simp
  next
    case (Inr b)
    have "\<exists>r. slotsLoop tz p date bs d e (c + d) (if b then acc @ [timeString c] else acc) = Some r"
      using xs by (rule Cons.hyps(1))
    then show ?thesis using le Inr by (subst slotsLoop.simps) simp
  qed
qed

section \<open>Slot starts and the slot listing of an open day\<close>

lemma mult_le_iff_le_div:
  fixes a b d :: int
  assumes "0 < d"
  shows "a * d \<le> b \<longleftrightarrow> a \<le> b div d"
proof
  assume "a * d \<le> b"
  then have "(a * d) div d \<le> b div d" using assms by (rule zdiv_mono1)
  then show "a \<le> b div d" using assms by simp
next
  assume "a \<le> b div d"
  then have le: "a * d \<le> (b div d) * d" using assms by (simp add: mult_right_mono)
  have "b = (b div d) * d + b mod d" by simp
  moreover have "0 \<le> b mod d" using assms by simp
  ultimately have "(b div d) * d \<le> b" by linarith
  then show "a * d \<le> b" using le by linarith
qed

lemma slotStarts_mem:
  assumes "0 < d"
  shows "x \<in> set (slotStarts s e d) \<longleftrightarrow> (\<exists>k::nat. x = s + int k * d \<and> x + d \<le> e)"
proof -
  have key: "\<And>k::nat. k < nat ((e - s) div d) \<longleftrightarrow> s + int k * d + d \<le> e"
  proof -
    fix k :: nat
    have "s + int k * d + d \<le> e \<longleftrightarrow> (int k + 1) * d \<le> e - s" by (simp add: algebra_simps)
    also have "\<dots> \<longleftrightarrow> int k + 1 \<le> (e - s) div d"
      using assms by (rule mult_le_iff_le_div)
    also have "\<dots> \<longleftrightarrow> k < nat ((e - s) div d)" by auto
    finally show "k < nat ((e - s) div d) \<longleftrightarrow> s + int k * d + d \<le> e" by simp
  qed
  show ?thesis
  proof
    assume "x \<in> set (slotStarts s e d)"
    then obtain k where k: "k < nat ((e - s) div d)" "x = s + int k * d"
      by (auto simp: slotStarts_def)
    then show "\<exists>k::nat. x = s + int k * d \<and> x + d \<le> e" using key [of k] by auto
  next
    assume "\<exists>k::nat. x = s + int k * d \<and> x + d \<le> e"
    then obtain k :: nat where k: "x = s + int k * d" "x + d \<le> e" by blast
    then have "k < nat ((e - s) div d)" using key [of k] by simp
    then have "k \<in> set [0 ..< nat ((e - s) div d)]" by simp
    then have "s + int k * d \<in> (\<lambda>k. s + int k * d) ` set [0 ..< nat ((e - s) div d)]"
      by (rule imageI)
    then show "x \<in> set (slotStarts s e d)" unfolding slotStarts_def k(1) by simp
  qed
qed

lemma slotStarts_sorted: "0 < d \<Longrightarrow> sorted_wrt (<) (slotStarts s e d)"
proof -
  assume d: "0 < d"
  have "sorted_wrt (\<lambda>i j. s + int i * d < s + int j * d) [0 ..< nat ((e - s) div d)]"
  proof (rule sorted_wrt_mono_rel [of _ "(<)"])
    fix i j :: nat assume "i < j"
    then show "s + int i * d < s + int j * d" using d by simp
  qed simp
  then show ?thesis unfolding slotStarts_def by (simp add: sorted_wrt_map)
qed


lemma slotStarts_ge: "0 < d \<Longrightarrow> x \<in> set (slotStarts s e d) \<Longrightarrow> s \<le> x \<and> x + d \<le> e"
  by (auto simp: slotStarts_mem)

lemma timeString_nonempty: "timeString t \<noteq> []"
  by (simp add: timeString_def Let_def)

lemma getAvailableTimeSlots_open:
  assumes "availability p = Some avail" "date \<noteq> NoDate"
    and "dayRule avail (getDay tz date) = Some da" "available da"
    and "startTime da = Some st" "endTime da = Some en"
    and "minutesOf st = Some s" "minutesOf en = Some e"
  shows "getAvailableTimeSlots tz (Some p) date bs d =
           (if 0 < d
            then Some (Inr (filter (\<lambda>t. isProviderAvailable tz (Some p) date t bs = Inr True)
                              (map timeString (slotStarts s e d))))
            else if s + d \<le> e then None else Some (Inr []))"
proof -
  let ?ok = "\<lambda>t. t \<noteq> [] \<and> \<not> jsLess (minutesOf t) (minutesOf st)
                \<and> \<not> jsGreaterEq (minutesOf t) (minutesOf en)
                \<and> find (\<lambda>b. scheduledDate b = date \<and> scheduledTime b = t \<and> isActive b) bs = None"
  have ok: "\<And>t. isProviderAvailable tz (Some p) date t bs = Inr (?ok t)"
    using assms(1-6) by (rule isProviderAvailable_open)
  have unfold: "getAvailableTimeSlots tz (Some p) date bs d = slotsLoop tz p date bs d e s []"
    using assms by (simp add: getAvailableTimeSlots_def)
  show ?thesis
  proof (cases "0 < d")
    case True
    have "slotsLoop tz p date bs d e s [] = Some (Inr ([] @ filter ?ok (map timeString (slotStarts s e d))))"
      using True ok by (rule slotsLoop_closed)
    then show ?thesis using True unfold by (simp add: ok)
  next
    case False
    show ?thesis
    proof (cases "s + d \<le> e")
      case True
      have "slotsLoop tz p date bs d e s [] = None"
      proof (cases "slotsLoop tz p date bs d e s []")
        case (Some y)
        then have "\<not> (d \<le> 0 \<and> s + d \<le> e)"
          using ok by (intro slotsLoop_stuck [of tz p date bs d e s "[]" y]) auto
        then show ?thesis using True False by simp
      qed simp
      then show ?thesis using True False unfold by simp
    next
      case nle: False
      then have "slotsLoop tz p date bs d e s [] = Some (Inr [])"
        by (subst slotsLoop.simps) simp
      then show ?thesis using nle False unfold by simp
    qed
  qed
qed

lemma free_slot_open:
  assumes "availability p = Some avail" "date \<noteq> NoDate"
    and "dayRule avail (getDay tz date) = Some da" "available da"
    and "startTime da = Some st" "endTime da = Some en"
    and "minutesOf st = Some s" "minutesOf en = Some e"
    and "0 \<le> s" "0 < d" "x \<in> set (slotStarts s e d)"
  shows "isProviderAvailable tz (Some p) date (timeString x) bs =
           Inr (find (\<lambda>b. scheduledDate b = date \<and> scheduledTime b = timeString x \<and> isActive b) bs = None)"
proof -
  have r: "s \<le> x" "x + d \<le> e" using slotStarts_ge [OF assms(10,11)] by simp_all
  then have "minutesOf (timeString x) = Some x" using assms(9) by (intro minutesOf_timeString) simp
  then show ?thesis
    using r assms(10) isProviderAvailable_open [OF assms(1-6), of "timeString x" bs]
    by (simp add: assms(7,8) jsLess_def jsGreaterEq_def timeString_nonempty)
qed

lemma getAvailableTimeSlots_wellformed:
  assumes "availability p = Some avail" "date \<noteq> NoDate"
    and "dayRule avail (getDay tz date) = Some da" "available da"
    and "startTime da = Some st" "endTime da = Some en"
    and "minutesOf st = Some s" "minutesOf en = Some e"
    and "0 \<le> s" "0 < d"
  shows "getAvailableTimeSlots tz (Some p) date bs d =
           Some (Inr (filter (\<lambda>t. find (\<lambda>b. scheduledDate b = date \<and> scheduledTime b = t
                                              \<and> isActive b) bs = None)
                        (map timeString (slotStarts s e d))))"
proof -
  have "filter (\<lambda>t. isProviderAvailable tz (Some p) date t bs = Inr True)
            (map timeString (slotStarts s e d))
      = filter (\<lambda>t. find (\<lambda>b. scheduledDate b = date \<and> scheduledTime b = t \<and> isActive b) bs = None)
            (map timeString (slotStarts s e d))"
  proof (rule filter_cong [OF refl])
    fix t assume "t \<in> set (map timeString (slotStarts s e d))"
    then obtain x where x: "x \<in> set (slotStarts s e d)" "t = timeString x" by auto
    show "(isProviderAvailable tz (Some p) date t bs = Inr True)
        = (find (\<lambda>b. scheduledDate b = date \<and> scheduledTime b = t \<and> isActive b) bs = None)"
      unfolding x(2) using free_slot_open [OF assms x(1), of bs] by simp
  qed
  then show ?thesis
    using getAvailableTimeSlots_open [OF assms(1-8), of bs d] assms(10) by simp
qed

section \<open>Concrete values\<close>

lemma timeString_hours:
  "timeString 540 = ''09:00''" "timeString 600 = ''10:00''" "timeString 660 = ''11:00''"
  "timeString 720 = ''12:00''" "timeString 780 = ''13:00''" "timeString 840 = ''14:00''"
  "timeString 900 = ''15:00''" "timeString 960 = ''16:00''" "timeString 1020 = ''17:00''"
  by code_simp+

lemma slotStarts_nine_to_five: "slotStarts 540 1020 60 = [540, 600, 660, 720, 780, 840, 900, 960]"
  by code_simp

lemma minutesOf_nine_five: "minutesOf ''09:00'' = Some 540" "minutesOf ''17:00'' = Some 1020"
  by code_simp+

lemma default_monday:
  "dayRule defaultAvailability (getDay 0 (IsoDate 4))
     = Some \<lparr> available = True, startTime = Some (timeString 540), endTime = Some (timeString 1020) \<rparr>"
  by (simp add: dayRule_def getDay_def defaultAvailability_def timeString_hours)

lemma default_sunday:
  "dayRule defaultAvailability (getDay 0 (IsoDate 3))
     = Some \<lparr> available = False, startTime = Some ''09:00'', endTime = Some ''17:00'' \<rparr>"
  by (simp add: dayRule_def getDay_def defaultAvailability_def)

lemma default_weekdays:
  "getDay 0 (IsoDate 20000) = Some 5" "getDay 0 (IsoDate 20001) = Some 6"
  "getDay 0 (IsoDate 20002) = Some 0" "getDay 0 (IsoDate 20003) = Some 1"
  by (simp_all add: getDay_def)

lemma default_open_day:
  assumes "getDay tz date = Some n" "0 < n" "n < 6" "date \<noteq> NoDate"
  shows "getAvailableTimeSlots tz (Some defaultProvider) date bs 60 =
           Some (Inr (filter (\<lambda>t. find (\<lambda>b. scheduledDate b = date \<and> scheduledTime b = t
                                              \<and> isActive b) bs = None)
                        [''09:00'', ''10:00'', ''11:00'', ''12:00'', ''13:00'', ''14:00'',
                         ''15:00'', ''16:00'']))"
proof -
  let ?da = "\<lparr> available = True, startTime = Some ''09:00'', endTime = Some ''17:00'' \<rparr>"
  have p: "availability defaultProvider = Some defaultAvailability"
    by (simp add: defaultProvider_def)
  have r: "dayRule defaultAvailability (getDay tz date) = Some ?da"
    using assms by (simp add: dayRule_def defaultAvailability_def)
  have f: "available ?da" "startTime ?da = Some ''09:00''" "endTime ?da = Some ''17:00''"
    by simp_all
  have "getAvailableTimeSlots tz (Some defaultProvider) date bs 60 =
           Some (Inr (filter (\<lambda>t. find (\<lambda>b. scheduledDate b = date \<and> scheduledTime b = t
                                              \<and> isActive b) bs = None)
                        (map timeString (slotStarts 540 1020 60))))"
    by (rule getAvailableTimeSlots_wellformed [OF p assms(4) r f minutesOf_nine_five]) simp_all
  then show ?thesis by (simp add: slotStarts_nine_to_five timeString_hours)
qed

lemma default_closed_day:
  assumes "getDay tz date = Some n" "n = 0 \<or> n = 6"
  shows "getAvailableTimeSlots tz (Some defaultProvider) date bs d = Some (Inr [])"
  using assms
  by (auto simp: getAvailableTimeSlots_def defaultProvider_def dayRule_def defaultAvailability_def)

section \<open>Slot generation\<close>

text \<open>
  Claim C3. For start and end minutes \<open>s\<close> and \<open>e\<close> of a day and a positive duration \<open>d\<close>,
  \<open>generateTimeSlots\<close> returns the time strings of exactly the starts
  \<open>s, s + d, s + 2 d, ...\<close> with \<open>x + d \<le> e\<close>, in ascending order, and reading the
  strings back gives these minutes. The slot listing of an open day without bookings is
  the same sequence; that of a closed day is empty. From 09:00 to 17:00 in steps of 60
  the result is the eight slots 09:00 to 16:00, so 17:00 is not among them.
\<close>

theorem generateTimeSlots_boundary_exclusive:
  "(0 \<le> s \<and> 0 \<le> e \<and> 0 < d \<longrightarrow>
      generateTimeSlots (timeString s) (timeString e) d = Some (map timeString (slotStarts s e d))
      \<and> map minutesOf (map timeString (slotStarts s e d)) = map Some (slotStarts s e d)
      \<and> sorted_wrt (<) (slotStarts s e d)
      \<and> (\<forall>x. x \<in> set (slotStarts s e d) \<longleftrightarrow> (\<exists>k::nat. x = s + int k * d \<and> x + d \<le> e))
      \<and> (availability p = Some avail \<and> date \<noteq> NoDate
           \<and> dayRule avail (getDay tz date)
               = Some \<lparr> available = True, startTime = Some (timeString s),
                        endTime = Some (timeString e) \<rparr>
          \<longrightarrow> getAvailableTimeSlots tz (Some p) date [] d
                = Some (Inr (map timeString (slotStarts s e d)))))
   \<and> (availability p = Some avail \<and> dayRule avail (getDay tz date) = Some da \<and> \<not> available da
        \<longrightarrow> getAvailableTimeSlots tz (Some p) date bs d = Some (Inr []))
   \<and> generateTimeSlots ''09:00'' ''17:00'' 60
        = Some [''09:00'', ''10:00'', ''11:00'', ''12:00'', ''13:00'', ''14:00'', ''15:00'', ''16:00'']"
proof (intro conjI impI)
  assume a: "0 \<le> s \<and> 0 \<le> e \<and> 0 < d"
  then have s: "0 \<le> s" and e: "0 \<le> e" and d: "0 < d" by simp_all
  show "sorted_wrt (<) (slotStarts s e d)" using d by (rule slotStarts_sorted)
  show "\<forall>x. x \<in> set (slotStarts s e d) \<longleftrightarrow> (\<exists>k::nat. x = s + int k * d \<and> x + d \<le> e)"
    using slotStarts_mem [OF d] by blast
  show "map minutesOf (map timeString (slotStarts s e d)) = map Some (slotStarts s e d)"
  proof -
    have "\<And>x. x \<in> set (slotStarts s e d) \<Longrightarrow> minutesOf (timeString x) = Some x"
      using slotStarts_ge [OF d] s by (intro minutesOf_timeString) force
    then show ?thesis by simp
  qed
  show "generateTimeSlots (timeString s) (timeString e) d = Some (map timeString (slotStarts s e d))"
    using s e d by (simp add: generateTimeSlots_def minutesOf_timeString generateLoop_closed)
next
  show "generateTimeSlots ''09:00'' ''17:00'' 60
        = Some [''09:00'', ''10:00'', ''11:00'', ''12:00'', ''13:00'', ''14:00'', ''15:00'', ''16:00'']"
    by (simp add: generateTimeSlots_def minutesOf_nine_five generateLoop_closed
          slotStarts_nine_to_five timeString_hours)
next
  assume "availability p = Some avail \<and> dayRule avail (getDay tz date) = Some da \<and> \<not> available da"
  then show "getAvailableTimeSlots tz (Some p) date bs d = Some (Inr [])"
    by (simp add: getAvailableTimeSlots_def)
next
  assume a: "0 \<le> s \<and> 0 \<le> e \<and> 0 < d"
    and b: "availability p = Some avail \<and> date \<noteq> NoDate
           \<and> dayRule avail (getDay tz date)
               = Some \<lparr> available = True, startTime = Some (timeString s),
                        endTime = Some (timeString e) \<rparr>"
  let ?da = "\<lparr> available = True, startTime = Some (timeString s), endTime = Some (timeString e) \<rparr>"
  have h: "availability p = Some avail" "date \<noteq> NoDate" "dayRule avail (getDay tz date) = Some ?da"
    using b by simp_all
  have f: "available ?da" "startTime ?da = Some (timeString s)" "endTime ?da = Some (timeString e)"
    by simp_all
  have m: "minutesOf (timeString s) = Some s" "minutesOf (timeString e) = Some e"
    using a by (simp_all add: minutesOf_timeString)
  have "getAvailableTimeSlots tz (Some p) date [] d =
           Some (Inr (filter (\<lambda>t. find (\<lambda>b. scheduledDate b = date \<and> scheduledTime b = t
                                              \<and> isActive b) [] = None)
                        (map timeString (slotStarts s e d))))"
    using a by (intro getAvailableTimeSlots_wellformed [OF h f m]) simp_all
  then show "getAvailableTimeSlots tz (Some p) date [] d
                = Some (Inr (map timeString (slotStarts s e d)))" by simp
qed

theorem generateTimeSlots_boundary_exclusive_witness:
  "(0::int) \<le> 540 \<and> (0::int) \<le> 1020 \<and> (0::int) < 60
   \<and> generateTimeSlots (timeString 540) (timeString 1020) 60
       = Some (map timeString (slotStarts 540 1020 60))
   \<and> availability defaultProvider = Some defaultAvailability \<and> IsoDate 4 \<noteq> NoDate
   \<and> dayRule defaultAvailability (getDay 0 (IsoDate 4))
       = Some \<lparr> available = True, startTime = Some (timeString 540),
                endTime = Some (timeString 1020) \<rparr>
   \<and> getAvailableTimeSlots 0 (Some defaultProvider) (IsoDate 4) [] 60
       = Some (Inr [''09:00'', ''10:00'', ''11:00'', ''12:00'', ''13:00'', ''14:00'', ''15:00'',
                    ''16:00''])
   \<and> dayRule defaultAvailability (getDay 0 (IsoDate 3))
       = Some \<lparr> available = False, startTime = Some ''09:00'', endTime = Some ''17:00'' \<rparr>
   \<and> \<not> available \<lparr> available = False, startTime = Some ''09:00'', endTime = Some ''17:00'' \<rparr>
   \<and> getAvailableTimeSlots 0 (Some defaultProvider) (IsoDate 3) [] 60 = Some (Inr [])"
proof -
  have p: "availability defaultProvider = Some defaultAvailability"
    by (simp add: defaultProvider_def)
  note open_day = generateTimeSlots_boundary_exclusive
    [where s = 540 and e = 1020 and d = 60 and p = defaultProvider
       and avail = defaultAvailability and date = "IsoDate 4" and tz = 0]
  note closed_day = generateTimeSlots_boundary_exclusive
    [where p = defaultProvider and avail = defaultAvailability and date = "IsoDate 3" and tz = 0
       and da = "\<lparr> available = False, startTime = Some ''09:00'', endTime = Some ''17:00'' \<rparr>"
       and bs = "[]" and d = 60]
  have a: "generateTimeSlots (timeString 540) (timeString 1020) 60
       = Some (map timeString (slotStarts 540 1020 60))"
    using open_day by simp
  have b: "getAvailableTimeSlots 0 (Some defaultProvider) (IsoDate 4) [] 60
       = Some (Inr (map timeString (slotStarts 540 1020 60)))"
    using open_day p default_monday by simp
  have c: "getAvailableTimeSlots 0 (Some defaultProvider) (IsoDate 3) [] 60 = Some (Inr [])"
    using closed_day p default_sunday by simp
  show ?thesis
    using a b c p default_monday default_sunday
    by (simp add: slotStarts_nine_to_five timeString_hours)
qed

section \<open>Termination of slot generation\<close>


lemma getAvailableTimeSlots_total:
  assumes "0 < d"
  shows "\<exists>r. getAvailableTimeSlots tz provider date bs d = Some r"
  using slotsLoop_total [OF assms]
  by (simp add: getAvailableTimeSlots_def split: option.split)

lemma slotStarts_length: "length (slotStarts s e d) = nat ((e - s) div d)"
  by (simp add: slotStarts_def)







section \<open>The slot helper of firestore.js\<close>

lemma fsLoop_closed:
  assumes "0 < d"
  shows "fsLoop c e d acc = Some (acc @ map timeOfDay (slotStarts c (e + d - 1) d))"
proof (induction "slotStarts c (e + d - 1) d" arbitrary: c acc)
  case Nil
  then have "\<not> c + d \<le> e + d - 1"
    using slotStarts_rec [OF assms, of c "e + d - 1"] by (auto split: if_splits)
  then have "\<not> c < e" by simp
  then show ?case using Nil [symmetric] by (subst fsLoop.simps) simp
next
  case (Cons x xs)
  then have le: "c + d \<le> e + d - 1"
    using slotStarts_rec [OF assms, of c "e + d - 1"] by (auto split: if_splits)
  then have eq: "slotStarts c (e + d - 1) d = c # slotStarts (c + d) (e + d - 1) d"
    using slotStarts_rec [OF assms, of c "e + d - 1"] by simp
  then have "xs = slotStarts (c + d) (e + d - 1) d" using Cons.hyps(2) by simp
  then have "fsLoop (c + d) e d (acc @ [timeOfDay c])
      = Some ((acc @ [timeOfDay c]) @ map timeOfDay (slotStarts (c + d) (e + d - 1) d))"
    by (rule Cons.hyps(1))
  moreover have "c < e" using le by simp
  ultimately show ?case using eq by (subst fsLoop.simps) simp
qed

lemma clock_values:
  "clockMinutes ''09:00'' = Some 540" "clockMinutes ''17:30'' = Some 1050"
  "clockMinutes ''14:30'' = Some 870" "clockMinutes ''15:00'' = Some 900"
  by code_simp+

lemma legacy_clock_values:
  "legacyClockMinutes ''09:00'' = Some 540" "legacyClockMinutes ''17:30'' = Some 1050"
  "legacyClockMinutes ''9:00'' = Some 540"
  by code_simp+

lemma minutesOf_half_past_five: "minutesOf ''17:30'' = Some 1050"
  by code_simp

lemma slotStarts_half_past_five:
  "slotStarts 540 1050 60 = [540, 600, 660, 720, 780, 840, 900, 960]"
  "slotStarts 540 (1050 + 60 - 1) 60 = [540, 600, 660, 720, 780, 840, 900, 960, 1020]"
  by code_simp+

lemma timeOfDay_hours:
  "timeOfDay 540 = ''09:00''" "timeOfDay 600 = ''10:00''" "timeOfDay 660 = ''11:00''"
  "timeOfDay 720 = ''12:00''" "timeOfDay 780 = ''13:00''" "timeOfDay 840 = ''14:00''"
  "timeOfDay 900 = ''15:00''" "timeOfDay 960 = ''16:00''" "timeOfDay 1020 = ''17:00''"
  by code_simp+

text \<open>
  Claim C10 says that the slot helper of \<open>firestore.js\<close> produces the same sequence as
  \<open>generateTimeSlots\<close> of \<open>availability.js\<close>. The helper's loop runs while the start of
  the slot is before the end time, not while the whole slot fits: from 09:00 to 17:30 in
  steps of 60 it also returns 17:00, a slot that lasts until 18:00, which the exported
  generator leaves out.
\<close>

theorem fs_generateTimeSlots_overruns_end:
  "fs_generateTimeSlots ''09:00'' ''17:30'' 60
     = Some [''09:00'', ''10:00'', ''11:00'', ''12:00'', ''13:00'', ''14:00'', ''15:00'', ''16:00'',
             ''17:00'']
   \<and> generateTimeSlots ''09:00'' ''17:30'' 60
     = Some [''09:00'', ''10:00'', ''11:00'', ''12:00'', ''13:00'', ''14:00'', ''15:00'', ''16:00'']"
proof
  show "fs_generateTimeSlots ''09:00'' ''17:30'' 60
     = Some [''09:00'', ''10:00'', ''11:00'', ''12:00'', ''13:00'', ''14:00'', ''15:00'', ''16:00'',
             ''17:00'']"
    using slotStarts_half_past_five(2)
    by (simp add: fs_generateTimeSlots_def legacy_clock_values fsLoop_closed timeOfDay_hours)
  show "generateTimeSlots ''09:00'' ''17:30'' 60
     = Some [''09:00'', ''10:00'', ''11:00'', ''12:00'', ''13:00'', ''14:00'', ''15:00'', ''16:00'']"
    by (simp add: generateTimeSlots_def minutesOf_nine_five minutesOf_half_past_five
          generateLoop_closed slotStarts_half_past_five timeString_hours)
qed

section \<open>Past slots\<close>

lemma clock_values_hours: "clockMinutes ''16:00'' = Some 960"
  by code_simp

text \<open>
  Claim C5 says that on the current day every slot whose instant is less than or equal
  to the current time is removed. \<open>filterPastSlots\<close> keeps past slots in two ways.
  \<^item> \<open>isSlotInPast\<close> compares with \<open><\<close>: at 14:30 exactly on 2024-10-04 (day 20000),
    in UTC, the slot 14:30 is kept. The inline filter of the provider page, which keeps
    the slots with \<open>slotDateTime > new Date()\<close>, removes it.
  \<^item> Today is taken from \<open>toISOString\<close>, the UTC date, while the slot instants are
    local. In a browser four hours west of UTC, at 21:00 local time on 2024-10-04 the
    UTC date is already 2024-10-05, so for the local date of today nothing is filtered:
    the slots 09:00 and 16:00, twelve and five hours past, are kept.
  With the clock at 14:30 UTC the slot 09:00 is removed and the slot 15:00 is kept, as
  the claim says.
\<close>

theorem filterPastSlots_keeps_past_slots:
  "isoDay 1728052200000 = IsoDate 20000
   \<and> slotDateTime 0 (IsoDate 20000) ''14:30'' = Some 1728052200000
   \<and> filterPastSlots 0 1728052200000 (IsoDate 20000) [''14:30''] = [''14:30'']
   \<and> localMidnight (- 240) 1728090000000 = 1728014400000
   \<and> slotDateTime (- 240) (IsoDate 20000) ''00:00'' = Some 1728014400000
   \<and> slotDateTime (- 240) (IsoDate 20000) ''09:00'' = Some 1728046800000
   \<and> slotDateTime (- 240) (IsoDate 20000) ''16:00'' = Some 1728072000000
   \<and> isSlotInPast (- 240) 1728090000000 (IsoDate 20000) ''09:00''
   \<and> isSlotInPast (- 240) 1728090000000 (IsoDate 20000) ''16:00''
   \<and> isoDay 1728090000000 = IsoDate 20001
   \<and> filterPastSlots (- 240) 1728090000000 (IsoDate 20000) [''09:00'', ''16:00'']
       = [''09:00'', ''16:00'']
   \<and> filterPastSlots 0 1728052200000 (IsoDate 20000) [''09:00'', ''15:00''] = [''15:00'']"
proof -
  have midnight: "clockMinutes ''00:00'' = Some 0" by code_simp
  show ?thesis
    by (simp add: isoDay_def slotDateTime_def clock_values clock_values_hours midnight
          filterPastSlots_def isSlotInPast_def jsLess_def localMidnight_def)
qed

section \<open>Booking creation\<close>

lemma createBooking_online:
  "online db \<Longrightarrow>
     createBooking db b
       = (Success (length (bookings db)), db \<lparr> bookings := bookings db @ [b \<lparr> status := ''pending'' \<rparr>] \<rparr>)"
  by (simp add: createBooking_def addDoc_def)

text \<open>
  Claim C1 says that of two requests for the same provider, date and time exactly one
  succeeds. \<open>createBooking\<close> adds the document without looking at the store. A call
  is one \<open>addDoc\<close>, so two concurrent calls take effect in one of two orders; in both
  orders, starting from the empty store, each call reports success and the store ends
  with two pending bookings for the slot. The submit handler of the provider page behaves
  in the same way.
\<close>

theorem createBooking_double_booking:
  "occupying ''p1'' (IsoDate 20003) ''10:00'' (bookings emptyStore) = []
   \<and> fst (createBooking emptyStore (requestOf ''alice'')) = Success 0
   \<and> fst (createBooking (snd (createBooking emptyStore (requestOf ''alice''))) (requestOf ''bob''))
       = Success 1
   \<and> occupying ''p1'' (IsoDate 20003) ''10:00''
        (bookings (snd (createBooking (snd (createBooking emptyStore (requestOf ''alice'')))
                          (requestOf ''bob''))))
       = [requestOf ''alice'', requestOf ''bob'']
   \<and> fst (createBooking emptyStore (requestOf ''bob'')) = Success 0
   \<and> fst (createBooking (snd (createBooking emptyStore (requestOf ''bob''))) (requestOf ''alice''))
       = Success 1
   \<and> occupying ''p1'' (IsoDate 20003) ''10:00''
        (bookings (snd (createBooking (snd (createBooking emptyStore (requestOf ''bob'')))
                          (requestOf ''alice''))))
       = [requestOf ''bob'', requestOf ''alice'']
   \<and> fst (handleBookingSubmit
             (snd (handleBookingSubmit emptyStore (Some ''alice'') (Some ''customer'')
                     defaultProvider mondayForm))
             (Some ''bob'') (Some ''customer'') defaultProvider mondayForm) = AlertRequestSent
   \<and> occupying ''p1'' (IsoDate 20003) ''10:00''
        (bookings (snd (handleBookingSubmit
             (snd (handleBookingSubmit emptyStore (Some ''alice'') (Some ''customer'')
                     defaultProvider mondayForm))
             (Some ''bob'') (Some ''customer'') defaultProvider mondayForm)))
       = [requestOf ''alice'', requestOf ''bob'']"
  by (simp add: createBooking_def addDoc_def emptyStore_def requestOf_def occupying_def
        isActive_def handleBookingSubmit_def defaultProvider_def mondayForm_def)

text \<open>
  Claim C2 says that a request for an occupied slot is refused and leaves the store
  unchanged, and that a booking is created only for a slot of the current slot listing.
  With a confirmed booking on Monday at 10:00 in the store the listing for that day does
  not contain 10:00, yet \<open>createBooking\<close> for Monday 10:00 reports success and the slot
  ends with two occupying bookings.
\<close>

theorem createBooking_ignores_existing_booking:
  "occupying ''p1'' (IsoDate 20003) ''10:00'' [confirmedBooking] = [confirmedBooking]
   \<and> getAvailableTimeSlots 0 (Some defaultProvider) (IsoDate 20003) [confirmedBooking] 60
       = Some (Inr [''09:00'', ''11:00'', ''12:00'', ''13:00'', ''14:00'', ''15:00'', ''16:00''])
   \<and> createBooking \<lparr> bookings = [confirmedBooking], online = True \<rparr> (requestOf ''alice'')
       = (Success 1, \<lparr> bookings = [confirmedBooking, requestOf ''alice''], online = True \<rparr>)
   \<and> occupying ''p1'' (IsoDate 20003) ''10:00'' [confirmedBooking, requestOf ''alice'']
       = [confirmedBooking, requestOf ''alice'']"
proof -
  have "getAvailableTimeSlots 0 (Some defaultProvider) (IsoDate 20003) [confirmedBooking] 60
       = Some (Inr [''09:00'', ''11:00'', ''12:00'', ''13:00'', ''14:00'', ''15:00'', ''16:00''])"
    by (simp add: default_open_day [OF default_weekdays(4)] confirmedBooking_def requestOf_def
          isActive_def)
  then show ?thesis
    by (simp add: createBooking_def addDoc_def requestOf_def occupying_def isActive_def
          confirmedBooking_def)
qed

section \<open>Next available slot\<close>

text \<open>
  Claim C6 says that the scan returns the first date whose slot list is non-empty after
  booking-conflict and past-slot filtering. \<open>getNextAvailableSlot\<close> does not filter past
  slots. On Friday 2024-10-04 (day 20000) at 18:00 UTC, for a provider open on weekdays
  from 09:00 to 17:00 without bookings, it returns Friday 09:00, a slot nine hours in the
  past. \<open>hasAvailabilityOnDate\<close> applies the past filter and finds nothing on that
  Friday, and \<open>getNextAvailableDate\<close>, which is built on it, returns Monday.
\<close>

theorem getNextAvailableSlot_returns_past_slot:
  "getNextAvailableSlot 0 1728064800000 (Some defaultProvider) [] 7
     = Some (Inr (Some \<lparr> slot_date = IsoDate 20000, slot_time = ''09:00'',
                          slot_dayName = Some ''Friday'' \<rparr>))
   \<and> isSlotInPast 0 1728064800000 (IsoDate 20000) ''09:00''
   \<and> hasAvailabilityOnDate 0 1728064800000 (Some defaultProvider) (IsoDate 20000) []
       = Some (Inr False)
   \<and> getNextAvailableDate 0 1728064800000 (Some defaultProvider) [] 7
       = Some (Inr (Some (IsoDate 20003)))"
proof (intro conjI)
  note days = default_open_day [OF default_weekdays(1), of "[]"]
    default_closed_day [OF default_weekdays(2), of "[]" 60]
    default_closed_day [OF default_weekdays(3), of "[]" 60]
    default_open_day [OF default_weekdays(4), of "[]"]
  show "getNextAvailableSlot 0 1728064800000 (Some defaultProvider) [] 7
     = Some (Inr (Some \<lparr> slot_date = IsoDate 20000, slot_time = ''09:00'',
                          slot_dayName = Some ''Friday'' \<rparr>))"
    unfolding getNextAvailableSlot_def
    by (subst nextSlotLoop.simps) (simp add: isoDay_def days getDayName_def default_weekdays)
  show "isSlotInPast 0 1728064800000 (IsoDate 20000) ''09:00''"
    by (simp add: isSlotInPast_def slotDateTime_def clock_values jsLess_def)
  have clock: "clockMinutes ''10:00'' = Some 600" "clockMinutes ''11:00'' = Some 660"
    "clockMinutes ''12:00'' = Some 720" "clockMinutes ''13:00'' = Some 780"
    "clockMinutes ''14:00'' = Some 840" "clockMinutes ''16:00'' = Some 960"
    by code_simp+
  show friday: "hasAvailabilityOnDate 0 1728064800000 (Some defaultProvider) (IsoDate 20000) []
       = Some (Inr False)"
    by (simp add: hasAvailabilityOnDate_def days filterPastSlots_def isoDay_def isSlotInPast_def
          slotDateTime_def clock_values clock jsLess_def)
  have sat: "hasAvailabilityOnDate 0 1728064800000 (Some defaultProvider) (IsoDate 20001) []
       = Some (Inr False)"
    by (simp add: hasAvailabilityOnDate_def days filterPastSlots_def isoDay_def)
  have sun: "hasAvailabilityOnDate 0 1728064800000 (Some defaultProvider) (IsoDate 20002) []
       = Some (Inr False)"
    by (simp add: hasAvailabilityOnDate_def days filterPastSlots_def isoDay_def)
  have mon: "hasAvailabilityOnDate 0 1728064800000 (Some defaultProvider) (IsoDate 20003) []
       = Some (Inr True)"
    by (simp add: hasAvailabilityOnDate_def days filterPastSlots_def isoDay_def)
  have mid: "localMidnight 0 1728064800000 = 1728000000000"
    by (simp add: localMidnight_def)
  show "getNextAvailableDate 0 1728064800000 (Some defaultProvider) [] 7
       = Some (Inr (Some (IsoDate 20003)))"
    unfolding getNextAvailableDate_def mid
    apply (subst nextDateLoop.simps, simp add: isoDay_def friday)
    apply (subst nextDateLoop.simps, simp add: isoDay_def sat)
    apply (subst nextDateLoop.simps, simp add: isoDay_def sun)
    apply (subst nextDateLoop.simps, simp add: isoDay_def mon)
    done
qed

section \<open>The conflict filter\<close>

lemma getAvailableTimeSlots_cases:
  "(\<exists>p avail da st en s e.
       provider = Some p \<and> availability p = Some avail \<and> date \<noteq> NoDate
       \<and> dayRule avail (getDay tz date) = Some da \<and> available da
       \<and> startTime da = Some st \<and> endTime da = Some en
       \<and> minutesOf st = Some s \<and> minutesOf en = Some e)
   \<or> (\<forall>bs. getAvailableTimeSlots tz provider date bs d = Some (Inr []))
   \<or> (\<forall>bs. getAvailableTimeSlots tz provider date bs d = Some (Inl TypeError))"
  by (auto simp: getAvailableTimeSlots_def split: option.splits)

lemma isProviderAvailable_same_conflicts:
  assumes "\<And>t. (\<exists>b\<in>set bs1. scheduledDate b = date \<and> scheduledTime b = t \<and> isActive b)
              = (\<exists>b\<in>set bs2. scheduledDate b = date \<and> scheduledTime b = t \<and> isActive b)"
  shows "isProviderAvailable tz provider date t bs1 = isProviderAvailable tz provider date t bs2"
proof -
  have "(find (\<lambda>b. scheduledDate b = date \<and> scheduledTime b = t \<and> isActive b) bs1 = None)
      = (find (\<lambda>b. scheduledDate b = date \<and> scheduledTime b = t \<and> isActive b) bs2 = None)"
    using assms [of t] by (simp add: find_None_iff) blast
  then show ?thesis
    by (simp add: isProviderAvailable_def Let_def split: option.split)
qed

lemma getAvailableTimeSlots_same_verdicts:
  assumes "\<And>t. isProviderAvailable tz provider date t bs1 = isProviderAvailable tz provider date t bs2"
  shows "getAvailableTimeSlots tz provider date bs1 d = getAvailableTimeSlots tz provider date bs2 d"
proof -
  consider
    (loop) p avail da st en s e where
      "provider = Some p" "availability p = Some avail" "date \<noteq> NoDate"
      "dayRule avail (getDay tz date) = Some da" "available da"
      "startTime da = Some st" "endTime da = Some en"
      "minutesOf st = Some s" "minutesOf en = Some e"
  | (early) "\<forall>bs. getAvailableTimeSlots tz provider date bs d = Some (Inr [])"
  | (throw) "\<forall>bs. getAvailableTimeSlots tz provider date bs d = Some (Inl TypeError)"
    using getAvailableTimeSlots_cases [of provider date tz d] by blast
  then show ?thesis
  proof cases
    case loop
    show ?thesis
      unfolding loop(1)
      using assms
      by (simp add: getAvailableTimeSlots_open [OF loop(2-9)] loop(1))
  next
    case early
    then show ?thesis by simp
  next
    case throw
    then show ?thesis by simp
  qed
qed

lemma getAvailableTimeSlots_all_available:
  assumes "getAvailableTimeSlots tz provider date bs d = Some (Inr slots)"
  shows "\<forall>t\<in>set slots. isProviderAvailable tz provider date t bs = Inr True"
proof -
  consider
    (loop) p avail da st en s e where
      "provider = Some p" "availability p = Some avail" "date \<noteq> NoDate"
      "dayRule avail (getDay tz date) = Some da" "available da"
      "startTime da = Some st" "endTime da = Some en"
      "minutesOf st = Some s" "minutesOf en = Some e"
  | (early) "\<forall>bs. getAvailableTimeSlots tz provider date bs d = Some (Inr [])"
  | (throw) "\<forall>bs. getAvailableTimeSlots tz provider date bs d = Some (Inl TypeError)"
    using getAvailableTimeSlots_cases [of provider date tz d] by blast
  then show ?thesis
  proof cases
    case loop
    have "getAvailableTimeSlots tz (Some p) date bs d = Some (Inr slots)"
      using assms loop(1) by simp
    then show ?thesis
      unfolding loop(1) getAvailableTimeSlots_open [OF loop(2-9)]
      by (auto split: if_splits)
  next
    case early
    then show ?thesis using assms by simp
  next
    case throw
    then show ?thesis using assms by simp
  qed
qed

text \<open>
  Claim C7. The conflict filter is the test of the listing loop, which keeps a slot when
  \<open>isProviderAvailable\<close> answers true. Applying that test to a listing that
  \<open>getAvailableTimeSlots\<close> returned removes nothing, and filtering any candidate sequence
  twice is filtering it once. A further pending or confirmed booking at the date and
  time of one that is already in the booking list changes neither the verdict for any
  slot nor the listing.
\<close>

theorem conflict_filter_idempotent:
  "(getAvailableTimeSlots tz provider date bs d = Some (Inr slots) \<longrightarrow>
      filter (\<lambda>t. isProviderAvailable tz provider date t bs = Inr True) slots = slots)
   \<and> filter (\<lambda>t. isProviderAvailable tz provider date t bs = Inr True)
        (filter (\<lambda>t. isProviderAvailable tz provider date t bs = Inr True) candidates)
      = filter (\<lambda>t. isProviderAvailable tz provider date t bs = Inr True) candidates
   \<and> (b \<in> set (xs @ ys) \<and> isActive b \<and> isActive b'
        \<and> scheduledDate b' = scheduledDate b \<and> scheduledTime b' = scheduledTime b \<longrightarrow>
        isProviderAvailable tz provider date t (xs @ b' # ys)
          = isProviderAvailable tz provider date t (xs @ ys)
        \<and> getAvailableTimeSlots tz provider date (xs @ b' # ys) d
          = getAvailableTimeSlots tz provider date (xs @ ys) d)"
proof (intro conjI impI)
  assume "getAvailableTimeSlots tz provider date bs d = Some (Inr slots)"
  then have "\<forall>t\<in>set slots. isProviderAvailable tz provider date t bs = Inr True"
    by (rule getAvailableTimeSlots_all_available)
  then show "filter (\<lambda>t. isProviderAvailable tz provider date t bs = Inr True) slots = slots"
    by (simp add: filter_id_conv)
next
  show "filter (\<lambda>t. isProviderAvailable tz provider date t bs = Inr True)
        (filter (\<lambda>t. isProviderAvailable tz provider date t bs = Inr True) candidates)
      = filter (\<lambda>t. isProviderAvailable tz provider date t bs = Inr True) candidates"
    by simp
next
  assume a: "b \<in> set (xs @ ys) \<and> isActive b \<and> isActive b'
        \<and> scheduledDate b' = scheduledDate b \<and> scheduledTime b' = scheduledTime b"
  have same: "\<And>t. (\<exists>x\<in>set (xs @ b' # ys). scheduledDate x = date \<and> scheduledTime x = t \<and> isActive x)
              = (\<exists>x\<in>set (xs @ ys). scheduledDate x = date \<and> scheduledTime x = t \<and> isActive x)"
    using a by auto
  show v: "isProviderAvailable tz provider date t (xs @ b' # ys)
          = isProviderAvailable tz provider date t (xs @ ys)"
    using same by (rule isProviderAvailable_same_conflicts)
  have "\<And>t. isProviderAvailable tz provider date t (xs @ b' # ys)
          = isProviderAvailable tz provider date t (xs @ ys)"
    using same by (rule isProviderAvailable_same_conflicts)
  then show "getAvailableTimeSlots tz provider date (xs @ b' # ys) d
          = getAvailableTimeSlots tz provider date (xs @ ys) d"
    by (rule getAvailableTimeSlots_same_verdicts)
qed

theorem conflict_filter_idempotent_witness:
  "getAvailableTimeSlots 0 (Some defaultProvider) (IsoDate 20003) [confirmedBooking] 60
     = Some (Inr [''09:00'', ''11:00'', ''12:00'', ''13:00'', ''14:00'', ''15:00'', ''16:00''])
   \<and> filter (\<lambda>t. isProviderAvailable 0 (Some defaultProvider) (IsoDate 20003) t [confirmedBooking]
                   = Inr True)
        [''09:00'', ''11:00'', ''12:00'', ''13:00'', ''14:00'', ''15:00'', ''16:00'']
      = [''09:00'', ''11:00'', ''12:00'', ''13:00'', ''14:00'', ''15:00'', ''16:00'']
   \<and> confirmedBooking \<in> set ([] @ [confirmedBooking])
   \<and> isActive confirmedBooking \<and> isActive (requestOf ''alice'')
   \<and> scheduledDate (requestOf ''alice'') = scheduledDate confirmedBooking
   \<and> scheduledTime (requestOf ''alice'') = scheduledTime confirmedBooking
   \<and> getAvailableTimeSlots 0 (Some defaultProvider) (IsoDate 20003)
        [requestOf ''alice'', confirmedBooking] 60
      = Some (Inr [''09:00'', ''11:00'', ''12:00'', ''13:00'', ''14:00'', ''15:00'', ''16:00''])"
proof -
  have l: "getAvailableTimeSlots 0 (Some defaultProvider) (IsoDate 20003) [confirmedBooking] 60
     = Some (Inr [''09:00'', ''11:00'', ''12:00'', ''13:00'', ''14:00'', ''15:00'', ''16:00''])"
    by (simp add: default_open_day [OF default_weekdays(4)] confirmedBooking_def requestOf_def
          isActive_def)
  have f: "confirmedBooking \<in> set ([] @ [confirmedBooking])
     \<and> isActive confirmedBooking \<and> isActive (requestOf ''alice'')
     \<and> scheduledDate (requestOf ''alice'') = scheduledDate confirmedBooking
     \<and> scheduledTime (requestOf ''alice'') = scheduledTime confirmedBooking"
    by (simp add: confirmedBooking_def requestOf_def isActive_def)
  note inst = conflict_filter_idempotent
    [where tz = 0 and provider = "Some defaultProvider" and date = "IsoDate 20003"
       and bs = "[confirmedBooking]" and d = 60
       and slots = "[''09:00'', ''11:00'', ''12:00'', ''13:00'', ''14:00'', ''15:00'', ''16:00'']"
       and b = confirmedBooking and b' = "requestOf ''alice''" and xs = "[]"
       and ys = "[confirmedBooking]"]
  have a: "filter (\<lambda>t. isProviderAvailable 0 (Some defaultProvider) (IsoDate 20003) t [confirmedBooking]
                   = Inr True)
        [''09:00'', ''11:00'', ''12:00'', ''13:00'', ''14:00'', ''15:00'', ''16:00'']
      = [''09:00'', ''11:00'', ''12:00'', ''13:00'', ''14:00'', ''15:00'', ''16:00'']"
    using inst l by blast
  have "getAvailableTimeSlots 0 (Some defaultProvider) (IsoDate 20003)
        ([] @ requestOf ''alice'' # [confirmedBooking]) 60
      = getAvailableTimeSlots 0 (Some defaultProvider) (IsoDate 20003) ([] @ [confirmedBooking]) 60"
    using inst f by blast
  then have b: "getAvailableTimeSlots 0 (Some defaultProvider) (IsoDate 20003)
        [requestOf ''alice'', confirmedBooking] 60
      = Some (Inr [''09:00'', ''11:00'', ''12:00'', ''13:00'', ''14:00'', ''15:00'', ''16:00''])"
    using l by simp
  show ?thesis using l a b f by blast
qed

section \<open>Absent availability\<close>

lemma getDay_east_of_utc:
  assumes "0 \<le> tz" "tz < 1440"
  shows "getDay tz (IsoDate n) = Some (weekdayOf n)"
proof -
  have "(n * 1440 + tz) div 1440 = n"
    using assms by (simp add: div_pos_pos_trivial)
  then show ?thesis by (simp add: getDay_def weekdayOf_def)
qed

lemma nine_to_five_status:
  assumes "getDay tz date = Some n" "0 < n" "n < 6" "date \<noteq> NoDate"
  shows "getAvailabilityStatus tz (Some defaultProvider) date [] =
           Some (Inr \<lparr> r_available = True, r_status = ''available'',
                        r_message = ''8 slots available'', r_dayName = None,
                        r_availableSlots = Some 8, r_bookedSlots = Some 0,
                        r_totalSlots = Some (Finite 8),
                        r_workingHours = Some ''09:00 - 17:00'' \<rparr>)"
proof -
  let ?da = "\<lparr> available = True, startTime = Some ''09:00'', endTime = Some ''17:00'' \<rparr>"
  have r: "dayRule defaultAvailability (getDay tz date) = Some ?da"
    using assms by (simp add: dayRule_def defaultAvailability_def)
  have t: "getTotalPossibleSlots ?da 60 = Inr (Finite 8)"
    by (simp add: getTotalPossibleSlots_def minutesOf_nine_five)
  have eight: "toString 8 = ''8''" by code_simp
  show ?thesis
    using assms(4)
    by (simp add: getAvailabilityStatus_def defaultProvider_def r t
          default_open_day [OF assms, unfolded defaultProvider_def]
          getBookedSlotsForDate_def percentage_def numLess_def eight showField_def)
qed

text \<open>
  Claim C8 says that an absent schedule, a closed day and a date out of range all give
  a closed or unavailable result. Two inputs give an open day instead.
  \<^item> The date \<open>2024-02-30\<close> is outside the calendar. V8 reads it as 2024-03-01, a Friday,
    and the queries answer for that day: eight slots, status \<open>available\<close>.
  \<^item> The weekday comes from \<open>getDay\<close>, the local weekday of midnight UTC. In a browser
    four hours west of UTC that is the day before: for Saturday 2024-10-05 (day 20001),
    closed in the schedule, the queries look up Friday and answer with eight slots
    and status \<open>available\<close>.
\<close>

theorem absent_availability_counterexample:
  "getAvailableTimeSlots 0 (Some defaultProvider)
      (OtherDate ''2024-02-30'' (Some 1709251200000)) [] 60
     = Some (Inr [''09:00'', ''10:00'', ''11:00'', ''12:00'', ''13:00'', ''14:00'', ''15:00'',
                  ''16:00''])
   \<and> map_option (map_sum id r_status)
        (getAvailabilityStatus 0 (Some defaultProvider)
           (OtherDate ''2024-02-30'' (Some 1709251200000)) [])
     = Some (Inr ''available'')
   \<and> weekdayOf 20001 = 6
   \<and> defaultAvailability 6
     = Some \<lparr> available = False, startTime = Some ''09:00'', endTime = Some ''17:00'' \<rparr>
   \<and> getAvailableTimeSlots (- 240) (Some defaultProvider) (IsoDate 20001) [] 60
     = Some (Inr [''09:00'', ''10:00'', ''11:00'', ''12:00'', ''13:00'', ''14:00'', ''15:00'',
                  ''16:00''])
   \<and> map_option (map_sum id r_status)
        (getAvailabilityStatus (- 240) (Some defaultProvider) (IsoDate 20001) [])
     = Some (Inr ''available'')"
proof -
  have march: "getDay 0 (OtherDate ''2024-02-30'' (Some 1709251200000)) = Some 5"
    by (simp add: getDay_def)
  have west: "getDay (- 240) (IsoDate 20001) = Some 5"
    by (simp add: getDay_def)
  show ?thesis
    by (simp add: default_open_day [OF march] default_open_day [OF west]
          nine_to_five_status [OF march] nine_to_five_status [OF west]
          weekdayOf_def defaultAvailability_def)
qed

text \<open>
  Claim C8 as amended. Without a provider, without a schedule, or without a date, the
  slot listing is empty and the status is \<open>unavailable\<close>. With a schedule, the slot listing
  is empty and the status is \<open>closed\<close> for a date string that \<open>Date\<close> cannot read, and,
  in a browser whose time zone is UTC or east of it, for a calendar date on whose weekday
  the schedule has no rule or a closed rule. In none of these cases does a call throw or
  run forever, for any booking list and any slot duration. Nothing is said about time
  zones west of UTC, nor about a date outside the calendar that the engine accepts.
\<close>

theorem absent_availability_is_data:
  "(Option.bind provider availability = None \<or> date = NoDate \<longrightarrow>
      getAvailableTimeSlots tz provider date bs d = Some (Inr [])
      \<and> (\<exists>r. getAvailabilityStatus tz provider date bs = Some (Inr r)
             \<and> r_status r = ''unavailable'' \<and> \<not> r_available r))
   \<and> (Option.bind provider availability = Some avail \<longrightarrow>
      getAvailableTimeSlots tz provider (OtherDate raw None) bs d = Some (Inr [])
      \<and> (\<exists>r. getAvailabilityStatus tz provider (OtherDate raw None) bs = Some (Inr r)
             \<and> r_status r = ''closed'' \<and> \<not> r_available r))
   \<and> (Option.bind provider availability = Some avail \<and> 0 \<le> tz \<and> tz < 1440
        \<and> (avail (weekdayOf n) = None
             \<or> (\<exists>da. avail (weekdayOf n) = Some da \<and> \<not> available da)) \<longrightarrow>
      getAvailableTimeSlots tz provider (IsoDate n) bs d = Some (Inr [])
      \<and> (\<exists>r. getAvailabilityStatus tz provider (IsoDate n) bs = Some (Inr r)
             \<and> r_status r = ''closed'' \<and> \<not> r_available r))"
proof (intro conjI impI)
  assume a: "Option.bind provider availability = None \<or> date = NoDate"
  then show "getAvailableTimeSlots tz provider date bs d = Some (Inr [])"
    by (auto simp: getAvailableTimeSlots_def split: option.splits Option.bind_splits)
  show "\<exists>r. getAvailabilityStatus tz provider date bs = Some (Inr r)
             \<and> r_status r = ''unavailable'' \<and> \<not> r_available r"
    using a by (auto simp: getAvailabilityStatus_def plainStatus_def split: option.splits)
next
  assume a: "Option.bind provider availability = Some avail"
  have n: "dayRule avail (getDay tz (OtherDate raw None)) = None"
    by (simp add: dayRule_def getDay_def)
  show "getAvailableTimeSlots tz provider (OtherDate raw None) bs d = Some (Inr [])"
    using a n by (auto simp: getAvailableTimeSlots_def split: option.splits Option.bind_splits)
  show "\<exists>r. getAvailabilityStatus tz provider (OtherDate raw None) bs = Some (Inr r)
             \<and> r_status r = ''closed'' \<and> \<not> r_available r"
    using a n by (auto simp: getAvailabilityStatus_def plainStatus_def)
next
  assume a: "Option.bind provider availability = Some avail \<and> 0 \<le> tz \<and> tz < 1440
        \<and> (avail (weekdayOf n) = None
             \<or> (\<exists>da. avail (weekdayOf n) = Some da \<and> \<not> available da))"
  then have g: "getDay tz (IsoDate n) = Some (weekdayOf n)"
    by (intro getDay_east_of_utc) simp_all
  have c: "dayRule avail (getDay tz (IsoDate n)) = None
           \<or> (\<exists>da. dayRule avail (getDay tz (IsoDate n)) = Some da \<and> \<not> available da)"
    using a by (simp add: g dayRule_def)
  show "getAvailableTimeSlots tz provider (IsoDate n) bs d = Some (Inr [])"
    using a c by (auto simp: getAvailableTimeSlots_def split: option.splits Option.bind_splits)
  show "\<exists>r. getAvailabilityStatus tz provider (IsoDate n) bs = Some (Inr r)
             \<and> r_status r = ''closed'' \<and> \<not> r_available r"
    using a c by (auto simp: getAvailabilityStatus_def plainStatus_def)
qed

theorem absent_availability_is_data_witness:
  "Option.bind (None :: provider option) availability = None
   \<and> getAvailableTimeSlots 0 None (IsoDate 20003) [confirmedBooking] 0 = Some (Inr [])
   \<and> (\<exists>r. getAvailabilityStatus 0 None (IsoDate 20003) [confirmedBooking] = Some (Inr r)
          \<and> r_status r = ''unavailable'' \<and> \<not> r_available r)
   \<and> Option.bind (Some defaultProvider) availability = Some defaultAvailability
   \<and> getAvailableTimeSlots 120 (Some defaultProvider) (OtherDate ''2024-13-45'' None)
        [confirmedBooking] 0 = Some (Inr [])
   \<and> (\<exists>r. getAvailabilityStatus 120 (Some defaultProvider) (OtherDate ''2024-13-45'' None)
            [confirmedBooking] = Some (Inr r) \<and> r_status r = ''closed'' \<and> \<not> r_available r)
   \<and> (0::int) \<le> 120 \<and> (120::int) < 1440
   \<and> (\<exists>da. defaultAvailability (weekdayOf 20002) = Some da \<and> \<not> available da)
   \<and> getAvailableTimeSlots 120 (Some defaultProvider) (IsoDate 20002) [confirmedBooking] 0
       = Some (Inr [])
   \<and> (\<exists>r. getAvailabilityStatus 120 (Some defaultProvider) (IsoDate 20002) [confirmedBooking]
            = Some (Inr r) \<and> r_status r = ''closed'' \<and> \<not> r_available r)"
proof -
  have p: "Option.bind (Some defaultProvider) availability = Some defaultAvailability"
    by (simp add: defaultProvider_def)
  have n: "Option.bind (None :: provider option) availability = None" by simp
  have c: "\<exists>da. defaultAvailability (weekdayOf 20002) = Some da \<and> \<not> available da"
    by (simp add: weekdayOf_def defaultAvailability_def)
  note none = absent_availability_is_data
    [where provider = None and date = "IsoDate 20003" and tz = 0 and bs = "[confirmedBooking]"
       and d = 0]
  note closed = absent_availability_is_data
    [where provider = "Some defaultProvider" and avail = defaultAvailability
       and n = 20002 and tz = 120 and bs = "[confirmedBooking]" and d = 0
       and raw = "''2024-13-45''"]
  show ?thesis
    using none closed n p c by simp
qed

section \<open>Availability status\<close>

lemma getTotalPossibleSlots_read:
  assumes "startTime da = Some st" "endTime da = Some en"
    and "minutesOf st = Some s" "minutesOf en = Some e"
  shows "getTotalPossibleSlots da 60 = Inr (Finite (of_int ((e - s) div 60)))"
  using assms by (simp add: getTotalPossibleSlots_def)

lemma getAvailabilityStatus_open:
  assumes "availability p = Some avail" "date \<noteq> NoDate"
    and "dayRule avail (getDay tz date) = Some da" "available da"
    and "getAvailableTimeSlots tz (Some p) date bs 60 = Some (Inr slots)"
    and "getTotalPossibleSlots da 60 = Inr totalSlots"
  shows "\<exists>r. getAvailabilityStatus tz (Some p) date bs = Some (Inr r)
           \<and> r_totalSlots r = Some totalSlots
           \<and> r_status r =
               (if length slots = 0 then ''fully-booked''
                else if numLess (percentage (length slots) totalSlots) 25 then ''limited''
                else if numLess (percentage (length slots) totalSlots) 50 then ''moderate''
                else ''available'')"
  using assms
  by (simp add: getAvailabilityStatus_def Let_def plainStatus_def split: prod.split)

lemma slots_nonempty_total_positive:
  assumes "slots = filter P (map timeString (slotStarts s e 60))" "slots \<noteq> []"
  shows "0 < (e - s) div 60"
proof -
  have "slotStarts s e 60 \<noteq> []" using assms by auto
  then have "0 < length (slotStarts s e 60)" by simp
  then show ?thesis by (simp add: slotStarts_length)
qed

text \<open>
  What \<open>getAvailabilityStatus\<close> computes from the slot listing of the weekday it looks
  up. On a day whose rule is missing or closed the status is \<open>closed\<close>. On an open day
  whose rule has both times, the status is \<open>fully-booked\<close> when the listing for
  60-minute slots is empty. Otherwise the two times are readable, the total slot count
  is \<open>(e - s) div 60\<close> and positive, and with \<open>pct = count / total * 100\<close> the status is
  \<open>limited\<close> when \<open>pct < 25\<close>, \<open>moderate\<close> when \<open>25 \<le> pct < 50\<close>, and \<open>available\<close>
  otherwise. The listing is that of \<open>getAvailableTimeSlots\<close>: slots that are already past
  are counted.
\<close>

lemma getAvailabilityStatus_thresholds:
  "(Option.bind provider availability = Some avail \<and> date \<noteq> NoDate
      \<and> (dayRule avail (getDay tz date) = None
           \<or> (\<exists>da. dayRule avail (getDay tz date) = Some da \<and> \<not> available da)) \<longrightarrow>
      (\<exists>r. getAvailabilityStatus tz provider date bs = Some (Inr r) \<and> r_status r = ''closed''))
   \<and> (provider = Some p \<and> availability p = Some avail \<and> date \<noteq> NoDate
        \<and> dayRule avail (getDay tz date) = Some da \<and> available da
        \<and> startTime da = Some st \<and> endTime da = Some en \<longrightarrow>
      (\<exists>slots r. getAvailableTimeSlots tz provider date bs 60 = Some (Inr slots)
         \<and> getAvailabilityStatus tz provider date bs = Some (Inr r)
         \<and> (length slots = 0 \<longrightarrow> r_status r = ''fully-booked'')
         \<and> (0 < length slots \<longrightarrow>
              (\<exists>s e. minutesOf st = Some s \<and> minutesOf en = Some e \<and> 0 < (e - s) div 60
                 \<and> r_totalSlots r = Some (Finite (of_int ((e - s) div 60)))
                 \<and> (let pct = (of_nat (length slots) / of_int ((e - s) div 60) * 100 :: rat)
                     in r_status r = (if pct < 25 then ''limited''
                                      else if pct < 50 then ''moderate''
                                      else ''available''))))))"
proof (intro conjI impI)
  assume "Option.bind provider availability = Some avail \<and> date \<noteq> NoDate
      \<and> (dayRule avail (getDay tz date) = None
           \<or> (\<exists>da. dayRule avail (getDay tz date) = Some da \<and> \<not> available da))"
  then show "\<exists>r. getAvailabilityStatus tz provider date bs = Some (Inr r) \<and> r_status r = ''closed''"
    by (auto simp: getAvailabilityStatus_def plainStatus_def)
next
  assume a: "provider = Some p \<and> availability p = Some avail \<and> date \<noteq> NoDate
        \<and> dayRule avail (getDay tz date) = Some da \<and> available da
        \<and> startTime da = Some st \<and> endTime da = Some en"
  then have h: "availability p = Some avail" "date \<noteq> NoDate"
    "dayRule avail (getDay tz date) = Some da" "available da"
    "startTime da = Some st" "endTime da = Some en" and pr: "provider = Some p"
    by simp_all
  show "\<exists>slots r. getAvailableTimeSlots tz provider date bs 60 = Some (Inr slots)
         \<and> getAvailabilityStatus tz provider date bs = Some (Inr r)
         \<and> (length slots = 0 \<longrightarrow> r_status r = ''fully-booked'')
         \<and> (0 < length slots \<longrightarrow>
              (\<exists>s e. minutesOf st = Some s \<and> minutesOf en = Some e \<and> 0 < (e - s) div 60
                 \<and> r_totalSlots r = Some (Finite (of_int ((e - s) div 60)))
                 \<and> (let pct = (of_nat (length slots) / of_int ((e - s) div 60) * 100 :: rat)
                     in r_status r = (if pct < 25 then ''limited''
                                      else if pct < 50 then ''moderate''
                                      else ''available''))))"
  proof (cases "\<exists>s e. minutesOf st = Some s \<and> minutesOf en = Some e")
    case True
    then obtain s e where m: "minutesOf st = Some s" "minutesOf en = Some e" by blast
    define slots where
      "slots = filter (\<lambda>t. isProviderAvailable tz (Some p) date t bs = Inr True)
                 (map timeString (slotStarts s e 60))"
    have l: "getAvailableTimeSlots tz (Some p) date bs 60 = Some (Inr slots)"
      unfolding slots_def using getAvailableTimeSlots_open [OF h m, of bs 60] by simp
    have t: "getTotalPossibleSlots da 60 = Inr (Finite (of_int ((e - s) div 60)))"
      using h(5,6) m by (rule getTotalPossibleSlots_read)
    obtain r where r: "getAvailabilityStatus tz (Some p) date bs = Some (Inr r)"
      "r_totalSlots r = Some (Finite (of_int ((e - s) div 60)))"
      "r_status r =
               (if length slots = 0 then ''fully-booked''
                else if numLess (percentage (length slots) (Finite (of_int ((e - s) div 60)))) 25
                then ''limited''
                else if numLess (percentage (length slots) (Finite (of_int ((e - s) div 60)))) 50
                then ''moderate''
                else ''available'')"
      using getAvailabilityStatus_open [OF h(1-4) l t] by blast
    have pos: "0 < length slots \<Longrightarrow> 0 < (e - s) div 60"
      using slots_nonempty_total_positive [OF slots_def] by auto
    have pct: "0 < length slots \<Longrightarrow>
        percentage (length slots) (Finite (of_int ((e - s) div 60)))
          = Finite (of_nat (length slots) / of_int ((e - s) div 60) * 100)"
      using pos by (simp add: percentage_def)
    have "0 < length slots \<longrightarrow>
              (\<exists>s e. minutesOf st = Some s \<and> minutesOf en = Some e \<and> 0 < (e - s) div 60
                 \<and> r_totalSlots r = Some (Finite (of_int ((e - s) div 60)))
                 \<and> (let pct = (of_nat (length slots) / of_int ((e - s) div 60) * 100 :: rat)
                     in r_status r = (if pct < 25 then ''limited''
                                      else if pct < 50 then ''moderate''
                                      else ''available'')))"
    proof
      assume n: "0 < length slots"
      have "r_status r =
         (if (of_nat (length slots) / of_int ((e - s) div 60) * 100 :: rat) < 25 then ''limited''
          else if (of_nat (length slots) / of_int ((e - s) div 60) * 100 :: rat) < 50
          then ''moderate'' else ''available'')"
        using n r(3) pct [OF n] by (simp add: numLess_def)
      then show "\<exists>s e. minutesOf st = Some s \<and> minutesOf en = Some e \<and> 0 < (e - s) div 60
                 \<and> r_totalSlots r = Some (Finite (of_int ((e - s) div 60)))
                 \<and> (let pct = (of_nat (length slots) / of_int ((e - s) div 60) * 100 :: rat)
                     in r_status r = (if pct < 25 then ''limited''
                                      else if pct < 50 then ''moderate''
                                      else ''available''))"
        using m pos [OF n] r(2) unfolding Let_def by blast
    qed
    moreover have "length slots = 0 \<longrightarrow> r_status r = ''fully-booked''" using r(3) by simp
    ultimately show ?thesis using l r(1) pr by blast
  next
    case False
    then have l: "getAvailableTimeSlots tz (Some p) date bs 60 = Some (Inr [])"
      using h by (auto simp: getAvailableTimeSlots_def split: option.splits)
    obtain totalSlots where t: "getTotalPossibleSlots da 60 = Inr totalSlots"
      using h(5,6) by (simp add: getTotalPossibleSlots_def)
    obtain r where r: "getAvailabilityStatus tz (Some p) date bs = Some (Inr r)"
      "r_status r = ''fully-booked''"
      using getAvailabilityStatus_open [OF h(1-4) l t] by auto
    show ?thesis using l r pr by (intro exI [of _ "[]"] exI [of _ r]) simp
  qed
qed

text \<open>
  Claim C4 says that the status of an open day is \<open>fully-booked\<close> when no slot is left
  after filtering, and that a closed day has status \<open>closed\<close>. \<open>getAvailabilityStatus\<close>
  counts the slots of \<open>getAvailableTimeSlots\<close>, which are filtered for bookings and not
  for the time of day, and it looks up the weekday that \<open>getDay\<close> returns.
  \<^item> On Friday 2024-10-04 (day 20000) at 18:00 UTC, without bookings, every slot of the
    day is past and \<open>filterPastSlots\<close> leaves none, yet the status is \<open>available\<close> with
    8 of 8 slots.
  \<^item> In a browser four hours west of UTC, Saturday 2024-10-05 (day 20001), closed in the
    schedule, has status \<open>available\<close>, because the rule of Friday is looked up.
\<close>

theorem getAvailabilityStatus_counts_past_slots:
  "getAvailableTimeSlots 0 (Some defaultProvider) (IsoDate 20000) [] 60
     = Some (Inr [''09:00'', ''10:00'', ''11:00'', ''12:00'', ''13:00'', ''14:00'', ''15:00'',
                  ''16:00''])
   \<and> isoDay 1728064800000 = IsoDate 20000
   \<and> filterPastSlots 0 1728064800000 (IsoDate 20000)
        [''09:00'', ''10:00'', ''11:00'', ''12:00'', ''13:00'', ''14:00'', ''15:00'', ''16:00'']
     = []
   \<and> getAvailabilityStatus 0 (Some defaultProvider) (IsoDate 20000) []
     = Some (Inr \<lparr> r_available = True, r_status = ''available'',
                    r_message = ''8 slots available'', r_dayName = None,
                    r_availableSlots = Some 8, r_bookedSlots = Some 0,
                    r_totalSlots = Some (Finite 8),
                    r_workingHours = Some ''09:00 - 17:00'' \<rparr>)
   \<and> weekdayOf 20001 = 6
   \<and> defaultAvailability 6
     = Some \<lparr> available = False, startTime = Some ''09:00'', endTime = Some ''17:00'' \<rparr>
   \<and> getAvailabilityStatus (- 240) (Some defaultProvider) (IsoDate 20001) []
     = Some (Inr \<lparr> r_available = True, r_status = ''available'',
                    r_message = ''8 slots available'', r_dayName = None,
                    r_availableSlots = Some 8, r_bookedSlots = Some 0,
                    r_totalSlots = Some (Finite 8),
                    r_workingHours = Some ''09:00 - 17:00'' \<rparr>)"
proof -
  have west: "getDay (- 240) (IsoDate 20001) = Some 5"
    by (simp add: getDay_def)
  have clock: "clockMinutes ''10:00'' = Some 600" "clockMinutes ''11:00'' = Some 660"
    "clockMinutes ''12:00'' = Some 720" "clockMinutes ''13:00'' = Some 780"
    "clockMinutes ''14:00'' = Some 840" "clockMinutes ''16:00'' = Some 960"
    by code_simp+
  have past: "filterPastSlots 0 1728064800000 (IsoDate 20000)
        [''09:00'', ''10:00'', ''11:00'', ''12:00'', ''13:00'', ''14:00'', ''15:00'', ''16:00'']
     = []"
    by (simp add: filterPastSlots_def isoDay_def isSlotInPast_def slotDateTime_def
          clock_values clock jsLess_def)
  show ?thesis
    using past
    by (simp add: default_open_day [OF default_weekdays(1)]
          nine_to_five_status [OF default_weekdays(1)] nine_to_five_status [OF west]
          isoDay_def weekdayOf_def defaultAvailability_def)
qed

end
